theory Spec2Isabelle
  imports Main "HOL-Library.Product_Lexorder" "HOL-Library.Option_ord" "HOL-Library.Multiset"
begin

section \<open>The task store\<close>

text \<open>
  A calendar date is its proleptic ordinal (what Python's \<open>date.toordinal\<close> returns), so
  that \<open>today + timedelta(days=7)\<close> is \<open>today + 7\<close>. The column \<open>due_date\<close> is queried
  through its \<open>__date\<close> transform and every write of \<open>task_managment.py\<close> stores a date, so
  a stored due date is a date. A user is the primary key of its row.
\<close>

type_synonym date = int
type_synonym user = int

text \<open>
  Modelled from the spec: \<open>models.py\<close>, which declares the model \<open>Tasks\<close>, is not among
  the sources. A row has the columns that \<open>task_managment.py\<close> reads and writes, under
  their names there, and the column \<open>source_routine\<close> of the data model of the spec (the
  routine that materialized the task and the date it was materialized for). A Python
  attribute may hold \<open>None\<close>, hence the options.
\<close>

record task =
  task_id :: int
  task_title :: "string option"
  task_details :: "string option"
  due_date :: "date option"
  status :: bool
  done_date :: "date option"
  created_by :: user
  source_routine :: "(int \<times> date) option"

text \<open>The table is the list of its rows; the primary key \<open>id\<close> is unique.\<close>

definition unique_ids :: "task list \<Rightarrow> bool" where
  "unique_ids st = distinct (map task_id st)"

subsection \<open>Requests\<close>

text \<open>
  \<open>request.data.get("task_ids", [])\<close>: a JSON list of integers, or a JSON value that is no
  list. A list with an element that is no integer is not modelled.
\<close>

datatype ids_payload = NotAList | IdList "int list"

text \<open>
  What the endpoints read of a request: the authenticated user, the query parameter
  \<open>page\<close> (\<open>None\<close> when absent) and the keys of the body. For \<open>task_title\<close> and
  \<open>task_details\<close> the outer option is the presence of the key and the inner one a JSON
  \<open>null\<close>; \<open>due_date\<close> and \<open>url_call\<close> are read with a default that makes an absent key
  and \<open>null\<close> alike.
\<close>

record request =
  r_user :: user
  r_page :: "string option"
  r_url_call :: "string option"
  r_task_title :: "string option option"
  r_task_details :: "string option option"
  r_due_date :: "string option"
  r_task_ids :: "ids_payload option"

subsection \<open>Collaborators that are not among the sources\<close>

text \<open>
  The endpoints call code that is not part of the sources; it is a parameter of every
  definition below, so that each theorem holds whatever these functions compute.
  \<^item> \<open>materialize\<close> is \<open>apply_routines(request, today)\<close> of \<open>tasks/utils/apply_routines.py\<close>;
  \<^item> \<open>parse_date_input\<close> is \<open>tasks_managements_utils._parse_date_input\<close>, a date or \<open>None\<close>;
  \<^item> \<open>tasks_count\<close> is \<open>tasks_managements_utils.tasks_count(url_call, request)\<close>, the
    triple total, completed, pending;
  \<^item> \<open>int_of_str\<close> is Python's \<open>int\<close> on the string of the query parameter \<open>page\<close>
    (\<open>None\<close> where it raises \<open>ValueError\<close>);
  \<^item> \<open>accepts\<close> is the constraints the declaration of the model \<open>Tasks\<close> puts on a row
    (\<open>NOT NULL\<close>, lengths): a write of a row it refuses raises \<open>IntegrityError\<close>.
\<close>

record env =
  materialize :: "user \<Rightarrow> date \<Rightarrow> task list \<Rightarrow> task list"
  parse_date_input :: "string option \<Rightarrow> date option"
  tasks_count :: "string \<Rightarrow> user \<Rightarrow> task list \<Rightarrow> int \<times> int \<times> int"
  int_of_str :: "string \<Rightarrow> int option"
  accepts :: "task \<Rightarrow> bool"

section \<open>The list views\<close>

subsection \<open>Django's paginator\<close>

datatype page_error = PageNotAnInteger | EmptyPage

text \<open>\<open>request.GET.get('page', 1)\<close>: the default is the integer 1, a given value a string.\<close>

datatype page_arg = PageInt int | PageStr string

text \<open>\<open>Paginator.num_pages\<close> with no orphans and \<open>allow_empty_first_page\<close>.\<close>

definition num_pages :: "int \<Rightarrow> 'a list \<Rightarrow> int" where
  "num_pages per_page object_list =
     (let hits = max 1 (int (length object_list)) in (hits + per_page - 1) div per_page)"

definition validate_number :: "env \<Rightarrow> int \<Rightarrow> 'a list \<Rightarrow> page_arg \<Rightarrow> page_error + int" where
  "validate_number E per_page object_list number =
     (case (case number of PageInt n \<Rightarrow> Some n | PageStr s \<Rightarrow> int_of_str E s) of
        None \<Rightarrow> Inl PageNotAnInteger
      | Some n \<Rightarrow>
          if n < 1 then Inl EmptyPage
          else if n > num_pages per_page object_list then Inl EmptyPage
          else Inr n)"

text \<open>Python's \<open>object_list[lo:hi]\<close> for \<open>0 \<le> lo\<close>.\<close>

definition slice :: "int \<Rightarrow> int \<Rightarrow> 'a list \<Rightarrow> 'a list" where
  "slice lo hi xs = take (nat (hi - lo)) (drop (nat lo) xs)"

definition page :: "env \<Rightarrow> int \<Rightarrow> 'a list \<Rightarrow> page_arg \<Rightarrow> page_error + (int \<times> 'a list)" where
  "page E per_page object_list number =
     (case validate_number E per_page object_list number of
        Inl e \<Rightarrow> Inl e
      | Inr n \<Rightarrow>
          (let bottom = (n - 1) * per_page;
               top0 = bottom + per_page;
               top1 = (if top0 \<ge> int (length object_list) then int (length object_list) else top0)
           in Inr (n, slice bottom top1 object_list)))"

subsection \<open>Query sets\<close>

text \<open>
  \<open>order_by('status', 'due_date')\<close>: incomplete rows first, then by due date. The order
  of rows with equal keys is the database's; the model keeps the order of the table. A
  row with no due date sorts first, as SQLite has it; no view with a date filter holds
  such a row.
\<close>

definition order_by_status_due_date :: "task list \<Rightarrow> task list" where
  "order_by_status_due_date qs = sort_key (\<lambda>t. (status t, due_date t)) qs"

text \<open>\<open>due_date__date__lt\<close>, \<open>__gte\<close>, \<open>__lte\<close>: a comparison with \<open>NULL\<close> selects nothing.\<close>

definition date_lt :: "date option \<Rightarrow> date \<Rightarrow> bool" where
  "date_lt d x = (case d of None \<Rightarrow> False | Some y \<Rightarrow> y < x)"

definition date_gte :: "date option \<Rightarrow> date \<Rightarrow> bool" where
  "date_gte d x = (case d of None \<Rightarrow> False | Some y \<Rightarrow> y \<ge> x)"

definition date_lte :: "date option \<Rightarrow> date \<Rightarrow> bool" where
  "date_lte d x = (case d of None \<Rightarrow> False | Some y \<Rightarrow> y \<le> x)"

definition today_filter :: "user \<Rightarrow> date \<Rightarrow> task \<Rightarrow> bool" where
  "today_filter u today t =
     (created_by t = u \<and>
      (due_date t = Some today \<or> (date_lt (due_date t) today \<and> status t = False)))"

definition today_qs :: "user \<Rightarrow> date \<Rightarrow> task list \<Rightarrow> task list" where
  "today_qs u today st = order_by_status_due_date (filter (today_filter u today) st)"

definition all_qs :: "user \<Rightarrow> task list \<Rightarrow> task list" where
  "all_qs u st = order_by_status_due_date (filter (\<lambda>t. created_by t = u) st)"

definition next_week_qs :: "user \<Rightarrow> date \<Rightarrow> task list \<Rightarrow> task list" where
  "next_week_qs u today st =
     (let week_later = today + 7 in
      order_by_status_due_date
        (filter (\<lambda>t. created_by t = u \<and> date_gte (due_date t) today
                      \<and> date_lte (due_date t) week_later) st))"

subsection \<open>The three endpoints\<close>

text \<open>
  The body of a list response; \<open>username\<close> and the constant \<open>success: True\<close> are left
  out. The status is always 200.
\<close>

record list_response =
  user_tasks :: "task list"
  pagination_page :: int
  pagination_num_pages :: int
  pagination_per_page :: int
  pagination_total :: int
  total_number_tasks :: int
  completed_tasks_count :: int
  pending_tasks :: int

text \<open>
  Lines 29 to 54, 62 to 87 and 103 to 128 of \<open>task_managment.py\<close> are the same text but
  for the query set: paginate, fall back to page 1 on \<open>PageNotAnInteger\<close> and
  \<open>EmptyPage\<close>, count. An exception of the fallback itself is not caught (\<open>Inl\<close>).
\<close>

definition paginated_response ::
  "env \<Rightarrow> int \<Rightarrow> request \<Rightarrow> task list \<Rightarrow> page_error + list_response" where
  "paginated_response E per_page req user_tasks_qs =
     (let page_num = (case r_page req of None \<Rightarrow> PageInt 1 | Some s \<Rightarrow> PageStr s);
          page_obj = (case page E per_page user_tasks_qs page_num of
                        Inr p \<Rightarrow> Inr p
                      | Inl e \<Rightarrow> page E per_page user_tasks_qs (PageInt 1))
      in case page_obj of
           Inl e \<Rightarrow> Inl e
         | Inr (number, object_list) \<Rightarrow>
             (let completed_tasks_count = int (length (filter (\<lambda>t. status t = True) user_tasks_qs));
                  total_number_tasks = int (length user_tasks_qs)
              in Inr \<lparr> user_tasks = object_list,
                       pagination_page = number,
                       pagination_num_pages = num_pages per_page user_tasks_qs,
                       pagination_per_page = per_page,
                       pagination_total = int (length user_tasks_qs),
                       total_number_tasks = total_number_tasks,
                       completed_tasks_count = completed_tasks_count,
                       pending_tasks = total_number_tasks - completed_tasks_count \<rparr>))"

text \<open>
  Each endpoint returns its response and the table it leaves: \<open>today_tasks\<close> and
  \<open>next_week_tasks\<close> materialize the routines first, \<open>all_tasks\<close> does not.
\<close>

definition today_tasks :: "env \<Rightarrow> date \<Rightarrow> request \<Rightarrow> task list
    \<Rightarrow> (page_error + list_response) \<times> task list" where
  "today_tasks E today req st =
     (let st' = materialize E (r_user req) today st
      in (paginated_response E 20 req (today_qs (r_user req) today st'), st'))"

definition all_tasks :: "env \<Rightarrow> request \<Rightarrow> task list
    \<Rightarrow> (page_error + list_response) \<times> task list" where
  "all_tasks E req st = (paginated_response E 20 req (all_qs (r_user req) st), st)"

definition next_week_tasks :: "env \<Rightarrow> date \<Rightarrow> request \<Rightarrow> task list
    \<Rightarrow> (page_error + list_response) \<times> task list" where
  "next_week_tasks E today req st =
     (let st' = materialize E (r_user req) today st
      in (paginated_response E 20 req (next_week_qs (r_user req) today st'), st'))"

section \<open>The mutation endpoints\<close>

subsection \<open>Responses and exceptions\<close>

text \<open>
  A response is its HTTP status and its body. A body carries the serialized task or
  tasks (the row itself stands for \<open>serialize_task\<close> of it) and the counts of
  \<open>tasks_count\<close>, or a message and the counts, or an error text.
\<close>

type_synonym counts = "int \<times> int \<times> int"

datatype body =
    TaskBody task counts
  | TasksBody "task list" counts
  | MessageBody string counts
  | ErrorBody string

type_synonym response = "nat \<times> body"

text \<open>
  What the ORM raises in these endpoints. \<open>Http404\<close> is a subclass of \<open>Exception\<close>, so
  the \<open>except Exception\<close> of every endpoint catches it like the others.
\<close>

datatype exn = Http404 | MultipleObjectsReturned | IntegrityError

text \<open>The \<open>except Exception\<close> branch, the same text in every mutation endpoint.\<close>

definition internal_error :: response where
  "internal_error = (500, ErrorBody ''An error occurred'')"

text \<open>\<open>request.data.get("url_call", "all")\<close>\<close>

definition url_call_of :: "request \<Rightarrow> string" where
  "url_call_of req = (case r_url_call req of None \<Rightarrow> ''all'' | Some c \<Rightarrow> c)"

subsection \<open>The ORM calls\<close>

text \<open>\<open>get_object_or_404(Tasks, id=task_id, created_by=request.user)\<close>\<close>

definition get_object_or_404 :: "int \<Rightarrow> user \<Rightarrow> task list \<Rightarrow> exn + task" where
  "get_object_or_404 tid u st =
     (case filter (\<lambda>t. task_id t = tid \<and> created_by t = u) st of
        [] \<Rightarrow> Inl Http404
      | [t] \<Rightarrow> Inr t
      | _ \<Rightarrow> Inl MultipleObjectsReturned)"

text \<open>\<open>task.save()\<close> of a row that exists: an \<open>UPDATE\<close> of every column where the key matches.\<close>

definition save :: "env \<Rightarrow> task \<Rightarrow> task list \<Rightarrow> exn + task list" where
  "save E t st =
     (if accepts E t then Inr (map (\<lambda>x. if task_id x = task_id t then t else x) st)
      else Inl IntegrityError)"

text \<open>A key that no row has; the database hands out such a key on \<open>INSERT\<close>.\<close>

definition fresh_id :: "task list \<Rightarrow> int" where
  "fresh_id st = 1 + fold max (map task_id st) 0"

text \<open>
  Modelled from the spec: the defaults of the columns that \<open>create\<close> is not given
  (\<open>status\<close> false, no \<open>done_date\<close>, no source routine) are those of a task created by the
  user in the data model of the spec; \<open>models.py\<close> is not among the sources. The call is
  \<open>Tasks.objects.create(task_title=..., task_details=..., due_date=..., created_by=...)\<close>.
\<close>

definition create :: "env \<Rightarrow> string option \<Rightarrow> string option \<Rightarrow> date option \<Rightarrow> user
    \<Rightarrow> task list \<Rightarrow> exn + (task \<times> task list)" where
  "create E title details due u st =
     (let t = \<lparr> task_id = fresh_id st, task_title = title, task_details = details,
                due_date = due, status = False, done_date = None, created_by = u,
                source_routine = None \<rparr>
      in if accepts E t then Inr (t, st @ [t]) else Inl IntegrityError)"

text \<open>\<open>Tasks.objects.filter(id__in=task_ids, created_by=request.user)\<close>\<close>

definition filter_ids :: "int list \<Rightarrow> user \<Rightarrow> task list \<Rightarrow> task list" where
  "filter_ids ids u st = filter (\<lambda>t. task_id t \<in> set ids \<and> created_by t = u) st"

text \<open>
  \<open>Tasks.objects.bulk_update(objs, fields)\<close>: one transaction that writes the named
  fields of every object to the row with its key; \<open>write obj x\<close> is the row \<open>x\<close> with
  those fields taken from \<open>obj\<close>. A row the table refuses fails the whole statement.
\<close>

definition bulk_update :: "env \<Rightarrow> (task \<Rightarrow> task \<Rightarrow> task) \<Rightarrow> task list \<Rightarrow> task list
    \<Rightarrow> exn + task list" where
  "bulk_update E write objs st =
     (if list_all (accepts E) objs
      then Inr (map (\<lambda>x. case find (\<lambda>obj. task_id obj = task_id x) objs of
                            None \<Rightarrow> x | Some obj \<Rightarrow> write obj x) st)
      else Inl IntegrityError)"

definition write_due_date :: "task \<Rightarrow> task \<Rightarrow> task" where
  "write_due_date obj x = x\<lparr>due_date := due_date obj\<rparr>"

definition write_status_done_date :: "task \<Rightarrow> task \<Rightarrow> task" where
  "write_status_done_date obj x = x\<lparr>status := status obj, done_date := done_date obj\<rparr>"

subsection \<open>The endpoints\<close>

text \<open>
  Each endpoint returns its response and the table it leaves. \<open>today\<close> is
  \<open>timezone.now().date()\<close>.
\<close>

definition add_task :: "env \<Rightarrow> date \<Rightarrow> request \<Rightarrow> task list \<Rightarrow> response \<times> task list" where
  "add_task E today req st =
     (let url_call = url_call_of req;
          title = (case r_task_title req of None \<Rightarrow> None | Some v \<Rightarrow> v);
          details = (case r_task_details req of None \<Rightarrow> None | Some v \<Rightarrow> v);
          due_date_raw = r_due_date req;
          due = (case parse_date_input E due_date_raw of None \<Rightarrow> today | Some d \<Rightarrow> d)
      in case create E title details (Some due) (r_user req) st of
           Inl e \<Rightarrow> (internal_error, st)
         | Inr (task, st') \<Rightarrow>
             ((201, TaskBody task (tasks_count E url_call (r_user req) st')), st'))"

text \<open>
  Lines 178 to 186: the assignments to the task that \<open>update_task\<close> has fetched. A key
  that the body leaves out keeps the value of the task; a due date that is given is
  parsed and assigned as parsed.
\<close>

definition updated_task :: "env \<Rightarrow> request \<Rightarrow> task \<Rightarrow> task" where
  "updated_task E req task =
     (let title = (case r_task_title req of None \<Rightarrow> task_title task | Some v \<Rightarrow> v);
          details = (case r_task_details req of None \<Rightarrow> task_details task | Some v \<Rightarrow> v);
          due_date_raw = r_due_date req;
          task1 = task\<lparr>task_title := title, task_details := details\<rparr>
      in case due_date_raw of
           None \<Rightarrow> task1
         | Some raw \<Rightarrow> task1\<lparr>due_date := parse_date_input E (Some raw)\<rparr>)"

definition update_task :: "env \<Rightarrow> request \<Rightarrow> int \<Rightarrow> task list \<Rightarrow> response \<times> task list" where
  "update_task E req tid st =
     (let url_call = url_call_of req
      in case get_object_or_404 tid (r_user req) st of
           Inl e \<Rightarrow> (internal_error, st)
         | Inr task \<Rightarrow>
             (let task2 = updated_task E req task
              in case save E task2 st of
                   Inl e \<Rightarrow> (internal_error, st)
                 | Inr st' \<Rightarrow>
                     ((200, TaskBody task2 (tasks_count E url_call (r_user req) st')), st')))"

definition multiple_update_task_dates ::
  "env \<Rightarrow> request \<Rightarrow> task list \<Rightarrow> response \<times> task list" where
  "multiple_update_task_dates E req st =
     (let url_call = url_call_of req
      in case (case r_task_ids req of None \<Rightarrow> IdList [] | Some v \<Rightarrow> v) of
           NotAList \<Rightarrow> ((400, ErrorBody ''task_ids should be a list of IDs''), st)
         | IdList task_ids \<Rightarrow>
             if task_ids = [] then ((400, ErrorBody ''task_ids list is empty''), st)
             else
               (let tasks_qs = filter_ids task_ids (r_user req) st
                in if tasks_qs = [] then ((404, ErrorBody ''No tasks found''), st)
                   else
                     (case r_due_date req of
                        None \<Rightarrow>
                          ((200, TasksBody tasks_qs (tasks_count E url_call (r_user req) st)), st)
                      | Some raw \<Rightarrow>
                          (let parsed = parse_date_input E (Some raw);
                               objs = map (\<lambda>t. t\<lparr>due_date := parsed\<rparr>) tasks_qs
                           in case bulk_update E write_due_date objs st of
                                Inl e \<Rightarrow> (internal_error, st)
                              | Inr st' \<Rightarrow>
                                  ((200, TasksBody objs
                                           (tasks_count E url_call (r_user req) st')), st')))))"

definition delete_task :: "env \<Rightarrow> request \<Rightarrow> int \<Rightarrow> task list \<Rightarrow> response \<times> task list" where
  "delete_task E req tid st =
     (case get_object_or_404 tid (r_user req) st of
        Inl e \<Rightarrow> (internal_error, st)
      | Inr task \<Rightarrow>
          (let url_call = url_call_of req;
               st' = filter (\<lambda>x. task_id x \<noteq> task_id task) st
           in ((200, MessageBody ''Task deleted'' (tasks_count E url_call (r_user req) st')),
               st')))"

definition multiple_delete_task :: "env \<Rightarrow> request \<Rightarrow> task list \<Rightarrow> response \<times> task list" where
  "multiple_delete_task E req st =
     (let url_call = url_call_of req
      in case (case r_task_ids req of None \<Rightarrow> IdList [] | Some v \<Rightarrow> v) of
           NotAList \<Rightarrow> ((400, ErrorBody ''task_ids should be a list of IDs''), st)
         | IdList task_ids \<Rightarrow>
             if task_ids = [] then ((400, ErrorBody ''task_ids list is empty''), st)
             else
               (let st' = filter (\<lambda>t. \<not> (task_id t \<in> set task_ids
                                             \<and> created_by t = r_user req)) st
                in ((200, MessageBody ''Tasks deleted''
                            (tasks_count E url_call (r_user req) st')), st')))"

text \<open>
  Lines 304 and 305, and again 333 and 334: flip \<open>status\<close>, then set \<open>done_date\<close> from the
  new status.
\<close>

definition toggle :: "date \<Rightarrow> task \<Rightarrow> task" where
  "toggle today t =
     (let t1 = t\<lparr>status := \<not> status t\<rparr>
      in t1\<lparr>done_date := (if status t1 then Some today else None)\<rparr>)"

definition task_complete :: "env \<Rightarrow> date \<Rightarrow> request \<Rightarrow> int \<Rightarrow> task list
    \<Rightarrow> response \<times> task list" where
  "task_complete E today req tid st =
     (let url_call = url_call_of req
      in case get_object_or_404 tid (r_user req) st of
           Inl e \<Rightarrow> (internal_error, st)
         | Inr task \<Rightarrow>
             (let task2 = toggle today task
              in case save E task2 st of
                   Inl e \<Rightarrow> (internal_error, st)
                 | Inr st' \<Rightarrow>
                     ((200, TaskBody task2 (tasks_count E url_call (r_user req) st')), st')))"

definition multiple_task_complete :: "env \<Rightarrow> date \<Rightarrow> request \<Rightarrow> task list
    \<Rightarrow> response \<times> task list" where
  "multiple_task_complete E today req st =
     (let url_call = url_call_of req
      in case (case r_task_ids req of None \<Rightarrow> IdList [] | Some v \<Rightarrow> v) of
           NotAList \<Rightarrow> ((400, ErrorBody ''task_ids should be a list of IDs''), st)
         | IdList task_ids \<Rightarrow>
             (let tasks_qs = filter_ids task_ids (r_user req) st;
                  objs = map (toggle today) tasks_qs
              in case bulk_update E write_status_done_date objs st of
                   Inl e \<Rightarrow> (internal_error, st)
                 | Inr st' \<Rightarrow>
                     ((200, TasksBody objs (tasks_count E url_call (r_user req) st')), st')))"

text \<open>The six endpoints that change or remove existing tasks, as the routes reach them.\<close>

datatype mutation =
    UpdateTask int
  | MultipleUpdateTaskDates
  | DeleteTask int
  | MultipleDeleteTask
  | TaskComplete int
  | MultipleTaskComplete

fun run_mutation :: "env \<Rightarrow> date \<Rightarrow> request \<Rightarrow> mutation \<Rightarrow> task list
    \<Rightarrow> response \<times> task list" where
  "run_mutation E today req (UpdateTask tid) st = update_task E req tid st"
| "run_mutation E today req MultipleUpdateTaskDates st = multiple_update_task_dates E req st"
| "run_mutation E today req (DeleteTask tid) st = delete_task E req tid st"
| "run_mutation E today req MultipleDeleteTask st = multiple_delete_task E req st"
| "run_mutation E today req (TaskComplete tid) st = task_complete E today req tid st"
| "run_mutation E today req MultipleTaskComplete st = multiple_task_complete E today req st"

text \<open>The tasks a response body shows.\<close>

fun body_tasks :: "body \<Rightarrow> task list" where
  "body_tasks (TaskBody t c) = [t]"
| "body_tasks (TasksBody ts c) = ts"
| "body_tasks (MessageBody m c) = []"
| "body_tasks (ErrorBody e) = []"


text \<open>
  What a mutation by user \<open>u\<close> owes the other users: their rows are in the table as they
  were, the response shows none of them, and the status is not 403.
\<close>

definition isolated :: "user \<Rightarrow> task list \<Rightarrow> response \<times> task list \<Rightarrow> bool" where
  "isolated u st res =
     (filter (\<lambda>t. created_by t \<noteq> u) (snd res) = filter (\<lambda>t. created_by t \<noteq> u) st
      \<and> list_all (\<lambda>t. created_by t = u) (body_tasks (snd (fst res)))
      \<and> fst (fst res) \<noteq> 403)"

section \<open>The routine materialization engine\<close>

text \<open>
  Modelled from the spec: \<open>tasks/utils/apply_routines.py\<close> and the model of a routine are
  not among the sources; the views only call \<open>apply_routines(request, today)\<close>. What
  follows is the algorithm of section 4.1 of the spec, one request at a time. The
  recurrence rule of a routine is kept as the pure function \<open>fires_on(rule, date)\<close> that
  the spec requires it to be.
\<close>

record routine =
  routine_id :: int
  routine_owner :: user
  fires_on :: "date \<Rightarrow> bool"
  routine_title :: string
  routine_details :: "string option"

text \<open>
  Modelled from the spec: step 3, the existence check for a task with
  \<open>(owner, source_routine = routine.id, materialized_for = targetDate)\<close>.
\<close>

definition materialized :: "user \<Rightarrow> int \<Rightarrow> date \<Rightarrow> task list \<Rightarrow> bool" where
  "materialized u rid d ts =
     list_ex (\<lambda>t. created_by t = u \<and> source_routine t = Some (rid, d)) ts"

text \<open>
  Modelled from the spec: steps 2 and 3 for one routine. A routine that fires and has no
  task for the date gets one, due on the date, incomplete, with the title and the details
  of the routine copied.
\<close>

definition materialize_one :: "user \<Rightarrow> date \<Rightarrow> routine \<Rightarrow> task list \<Rightarrow> task list" where
  "materialize_one u d r ts =
     (if fires_on r d \<and> \<not> materialized u (routine_id r) d ts
      then ts @ [\<lparr> task_id = fresh_id ts, task_title = Some (routine_title r),
                    task_details = routine_details r, due_date = Some d, status = False,
                    done_date = None, created_by = u,
                    source_routine = Some (routine_id r, d) \<rparr>]
      else ts)"

text \<open>
  Modelled from the spec: \<open>Materialize(owner, targetDate)\<close>, step 1 (the routines of the
  owner) and the loop over them.
\<close>

definition apply_routines :: "routine list \<Rightarrow> user \<Rightarrow> date \<Rightarrow> task list \<Rightarrow> task list" where
  "apply_routines routines u d ts =
     fold (materialize_one u d) (filter (\<lambda>r. routine_owner r = u) routines) ts"

section \<open>A concrete environment\<close>

text \<open>
  An instance of the collaborators for running the endpoints on concrete requests: no
  routine to materialize, a parser of unsigned decimal numerals for the page, a date
  parser that knows the day numbers written in decimal, counts over all the tasks of the
  user, and a table whose rows need a title and a due date.
\<close>

definition digit_val :: "char \<Rightarrow> int option" where
  "digit_val c =
     (let n = (of_char c :: nat) in if 48 \<le> n \<and> n \<le> 57 then Some (int n - 48) else None)"

fun dec_digits :: "int \<Rightarrow> string \<Rightarrow> int option" where
  "dec_digits acc [] = Some acc"
| "dec_digits acc (c # cs) =
     (case digit_val c of None \<Rightarrow> None | Some d \<Rightarrow> dec_digits (10 * acc + d) cs)"

definition dec_int :: "string \<Rightarrow> int option" where
  "dec_int s = (if s = [] then None else dec_digits 0 s)"

definition count_all :: "string \<Rightarrow> user \<Rightarrow> task list \<Rightarrow> int \<times> int \<times> int" where
  "count_all url_call u st =
     (let total = int (length (all_qs u st));
          completed = int (length (filter (\<lambda>t. status t) (all_qs u st)))
      in (total, completed, total - completed))"

definition not_null :: "task \<Rightarrow> bool" where
  "not_null t = (task_title t \<noteq> None \<and> due_date t \<noteq> None)"

definition demo_env :: env where
  "demo_env = \<lparr> materialize = (\<lambda>u d st. st),
                 parse_date_input = (\<lambda>raw. case raw of None \<Rightarrow> None | Some s \<Rightarrow> dec_int s),
                 tasks_count = count_all,
                 int_of_str = dec_int,
                 accepts = not_null \<rparr>"

text \<open>The same collaborators over a table whose columns all admit \<open>NULL\<close>.\<close>

definition lax_env :: env where
  "lax_env = demo_env\<lparr>accepts := (\<lambda>t. True)\<rparr>"

text \<open>
  Two routines of user 1, one for every seventh day and one for every day, and a routine
  of user 2.
\<close>

definition demo_routines :: "routine list" where
  "demo_routines =
     [\<lparr> routine_id = 1, routine_owner = 1, fires_on = (\<lambda>d. d mod 7 = 0),
         routine_title = ''review'', routine_details = None \<rparr>,
      \<lparr> routine_id = 2, routine_owner = 1, fires_on = (\<lambda>d. True),
         routine_title = ''stretch'', routine_details = Some ''ten minutes'' \<rparr>,
      \<lparr> routine_id = 3, routine_owner = 2, fires_on = (\<lambda>d. True),
         routine_title = ''water'', routine_details = None \<rparr>]"

definition demo_task :: "int \<Rightarrow> user \<Rightarrow> date \<Rightarrow> bool \<Rightarrow> task" where
  "demo_task i u d done =
     \<lparr> task_id = i, task_title = Some ''task'', task_details = None, due_date = Some d,
       status = done, done_date = (if done then Some d else None), created_by = u,
       source_routine = None \<rparr>"

definition demo_request :: "user \<Rightarrow> string option \<Rightarrow> request" where
  "demo_request u p =
     \<lparr> r_user = u, r_page = p, r_url_call = None, r_task_title = None,
       r_task_details = None, r_due_date = None, r_task_ids = None \<rparr>"

text \<open>
  Three tasks of user 1 due on day 100 (one of them complete), one incomplete task of
  user 1 due on day 99, and a task of user 2.
\<close>

definition demo_store :: "task list" where
  "demo_store =
     [demo_task 1 1 100 True, demo_task 2 1 100 False, demo_task 3 1 100 False,
      demo_task 4 1 99 False, demo_task 5 2 100 False]"

section \<open>Properties of the list views\<close>

lemma length_filter_order_by:
  "length (filter P (order_by_status_due_date xs)) = length (filter P xs)"
  by (simp add: order_by_status_due_date_def filter_sort)

lemma length_order_by: "length (order_by_status_due_date xs) = length xs"
  by (simp add: order_by_status_due_date_def)

lemma num_pages_ge_1: "0 < per_page \<Longrightarrow> 1 \<le> num_pages per_page xs"
  unfolding num_pages_def Let_def
  by (smt (verit) pos_imp_zdiv_pos_iff max.cobounded1)

lemma page_1_ok:
  "0 < per_page \<Longrightarrow> page E per_page xs (PageInt 1) = Inr (1, take (nat per_page) xs)"
  using num_pages_ge_1[of per_page xs]
  by (auto simp: page_def validate_number_def slice_def Let_def)

lemma paginated_response_counts:
  assumes "0 < per_page"
  shows "\<exists>r. paginated_response E per_page req qs = Inr r
           \<and> total_number_tasks r = int (length qs)
           \<and> completed_tasks_count r = int (length (filter (\<lambda>t. status t) qs))
           \<and> pending_tasks r = total_number_tasks r - completed_tasks_count r
           \<and> pagination_per_page r = per_page
           \<and> pagination_total r = int (length qs)"
proof (cases "page E per_page qs (case r_page req of None \<Rightarrow> PageInt 1 | Some s \<Rightarrow> PageStr s)")
  case (Inl e)
  then show ?thesis
    using page_1_ok[OF assms, of E qs]
    by (simp add: paginated_response_def Let_def)
next
  case (Inr p)
  then show ?thesis
    by (cases p) (simp add: paginated_response_def Let_def)
qed

lemma page_fallback:
  assumes "0 < per_page"
    and "r_page req = Some s"
    and "int_of_str E s = None
         \<or> (\<exists>n. int_of_str E s = Some n \<and> (n < 1 \<or> num_pages per_page qs < n))"
  shows "paginated_response E per_page req qs
         = paginated_response E per_page (req\<lparr>r_page := None\<rparr>) qs"
proof -
  have "\<exists>e. page E per_page qs (PageStr s) = Inl e"
    using assms(3) by (auto simp: page_def validate_number_def)
  then show ?thesis
    using assms(2) page_1_ok[OF assms(1), of E qs]
    by (auto simp: paginated_response_def Let_def)
qed

lemma page_default:
  assumes "0 < per_page" and "r_page req = None"
  shows "\<exists>r. paginated_response E per_page req qs = Inr r
           \<and> user_tasks r = take (nat per_page) qs \<and> pagination_page r = 1"
  using assms page_1_ok[OF assms(1), of E qs]
  by (simp add: paginated_response_def Let_def)

lemma page_Inr_slice:
  assumes "page E 20 xs a = Inr (n, ys)"
  shows "1 \<le> n \<and> ys = take 20 (drop (20 * nat (n - 1)) xs)"
proof -
  from assms have n: "1 \<le> n" and ys: "ys = slice ((n - 1) * 20)
      (if (n - 1) * 20 + 20 \<ge> int (length xs) then int (length xs) else (n - 1) * 20 + 20) xs"
    by (auto simp: page_def validate_number_def Let_def split: option.splits if_splits)
  define m where "m = nat (n - 1)"
  have nm: "n - 1 = int m" using n by (simp add: m_def)
  have b: "nat (int m * 20) = 20 * m" by linarith
  show ?thesis
  proof (cases "(n - 1) * 20 + 20 \<ge> int (length xs)")
    case True
    then have le: "length xs \<le> 20 * m + 20" unfolding nm by linarith
    have "nat (int (length xs) - int m * 20) = length xs - 20 * m" by linarith
    moreover have "take (length xs - 20 * m) (drop (20 * m) xs) = drop (20 * m) xs" by simp
    moreover have "take 20 (drop (20 * m) xs) = drop (20 * m) xs" using le by simp
    ultimately show ?thesis using ys True n b unfolding nm
      by (simp add: slice_def m_def[symmetric] mult.commute)
  next
    case False
    then show ?thesis using ys n b unfolding nm
      by (simp add: slice_def m_def[symmetric] mult.commute)
  qed
qed

lemma paginated_response_page:
  "\<exists>r k. paginated_response E 20 req qs = Inr r \<and> user_tasks r = take 20 (drop (20 * k) qs)
         \<and> pagination_total r = int (length qs) \<and> pagination_per_page r = 20"
proof (cases "page E 20 qs (case r_page req of None \<Rightarrow> PageInt 1 | Some s \<Rightarrow> PageStr s)")
  case (Inl e)
  have "take 20 qs = take 20 (drop (20 * 0) qs)" by simp
  then have "\<exists>k. take 20 qs = take 20 (drop (20 * k) qs)" by (rule exI)
  then show ?thesis
    using Inl page_1_ok[of 20 E qs]
    by (simp add: paginated_response_def Let_def)
next
  case (Inr p)
  obtain n ys where p: "p = (n, ys)" by (cases p)
  from page_Inr_slice[OF Inr[unfolded p]] show ?thesis
    using Inr p by (auto simp add: paginated_response_def Let_def)
qed

lemma num_pages_small: "length qs \<le> 20 \<Longrightarrow> num_pages 20 qs = 1"
proof -
  assume "length qs \<le> 20"
  then have "max 1 (int (length qs)) \<le> 20" "1 \<le> max 1 (int (length qs))" by auto
  then have "(max 1 (int (length qs)) + 20 - 1) div 20 = 1" by presburger
  then show ?thesis by (simp add: num_pages_def Let_def)
qed

lemma paginated_response_small:
  assumes "length qs \<le> 20"
  shows "\<exists>r. paginated_response E 20 req qs = Inr r \<and> user_tasks r = qs"
proof (cases "page E 20 qs (case r_page req of None \<Rightarrow> PageInt 1 | Some s \<Rightarrow> PageStr s)")
  case (Inl e)
  then show ?thesis using page_1_ok[of 20 E qs] assms
    by (simp add: paginated_response_def Let_def)
next
  case (Inr p)
  obtain n ys where p: "p = (n, ys)" by (cases p)
  have "n = 1" using Inr p num_pages_small[OF assms]
    by (auto simp: page_def validate_number_def Let_def split: option.splits if_splits)
  then have "ys = qs" using page_Inr_slice[OF Inr[unfolded p]] assms by simp
  then show ?thesis using Inr p by (simp add: paginated_response_def Let_def)
qed

lemma order_by_sorted:
  assumes "\<forall>t\<in>set xs. due_date t \<noteq> None"
  shows "sorted_wrt (\<lambda>a b. (\<not> status a \<and> status b)
            \<or> (status a = status b
               \<and> (\<exists>x y. due_date a = Some x \<and> due_date b = Some y \<and> x \<le> y)))
          (order_by_status_due_date xs)"
proof -
  have "sorted (map (\<lambda>t. (status t, due_date t)) (order_by_status_due_date xs))"
    by (simp add: order_by_status_due_date_def)
  then have s: "sorted_wrt (\<lambda>a b. (status a, due_date a) \<le> (status b, due_date b))
                  (order_by_status_due_date xs)"
    by (simp add: sorted_map)
  show ?thesis
  proof (rule sorted_wrt_mono_rel[OF _ s])
    fix a b assume "a \<in> set (order_by_status_due_date xs)" "b \<in> set (order_by_status_due_date xs)"
      and le: "(status a, due_date a) \<le> (status b, due_date b)"
    then have "due_date a \<noteq> None" "due_date b \<noteq> None"
      using assms by (auto simp: order_by_status_due_date_def)
    then obtain x y where "due_date a = Some x" "due_date b = Some y" by auto
    with le show "(\<not> status a \<and> status b)
            \<or> (status a = status b
               \<and> (\<exists>x y. due_date a = Some x \<and> due_date b = Some y \<and> x \<le> y))"
      by (auto simp: less_eq_prod_def less_bool_def le_bool_def)
  qed
qed

lemma today_filter_iff:
  "today_filter u today t \<longleftrightarrow> created_by t = u \<and>
     (due_date t = Some today \<or> (\<exists>d. due_date t = Some d \<and> d < today \<and> \<not> status t))"
  by (auto simp: today_filter_def date_lt_def split: option.splits)

lemma mset_order_by: "mset (order_by_status_due_date xs) = mset xs"
  by (simp add: order_by_status_due_date_def)

lemma view_counts:
  "\<exists>r. paginated_response E 20 req (order_by_status_due_date (filter P st)) = Inr r
       \<and> total_number_tasks r = int (length (filter P st))
       \<and> completed_tasks_count r = int (length (filter (\<lambda>t. status t \<and> P t) st))
       \<and> pending_tasks r = total_number_tasks r - completed_tasks_count r"
  using paginated_response_counts[of 20 E req "order_by_status_due_date (filter P st)"]
  by (auto simp: length_filter_order_by length_order_by conj_commute)

lemma fallback_generic:
  assumes "r_page req = Some s"
    and "int_of_str E s = None
         \<or> (\<exists>n. int_of_str E s = Some n \<and> (n < 1 \<or> num_pages 20 qs < n))"
  shows "\<exists>r. paginated_response E 20 req qs = Inr r \<and> user_tasks r = take 20 qs
           \<and> pagination_page r = 1 \<and> pagination_per_page r = 20
           \<and> paginated_response E 20 req qs = paginated_response E 20 (req\<lparr>r_page := None\<rparr>) qs"
proof -
  have eq: "paginated_response E 20 req qs = paginated_response E 20 (req\<lparr>r_page := None\<rparr>) qs"
    using page_fallback[of 20 req s E qs] assms by simp
  obtain r where r: "paginated_response E 20 (req\<lparr>r_page := None\<rparr>) qs = Inr r"
      "user_tasks r = take (nat 20) qs" "pagination_page r = 1"
    using page_default[of 20 "req\<lparr>r_page := None\<rparr>" E qs] by auto
  moreover have "pagination_per_page r = 20"
    using paginated_response_counts[of 20 E "req\<lparr>r_page := None\<rparr>" qs] r(1) by auto
  ultimately show ?thesis using eq by simp
qed

section \<open>The claims about the list views\<close>

text \<open>
  C2. In each of the three list views, whatever the page asked for, the response is a
  success whose \<open>total_number_tasks\<close> is the number of rows of the whole filtered set,
  whose \<open>completed_tasks_count\<close> is the number of completed rows of that set, and whose
  \<open>pending_tasks\<close> is their difference; the right-hand sides mention neither the page
  nor the page size. The same holds of the shared body of the views for every positive
  page size.
\<close>

theorem list_view_counts:
  fixes E :: env and req :: request and st :: "task list" and today :: date
  defines "u \<equiv> r_user req"
  defines "st' \<equiv> materialize E u today st"
  shows "(\<exists>r. fst (today_tasks E today req st) = Inr r
            \<and> total_number_tasks r = int (length (filter (today_filter u today) st'))
            \<and> completed_tasks_count r
                = int (length (filter (\<lambda>t. status t \<and> today_filter u today t) st'))
            \<and> pending_tasks r = total_number_tasks r - completed_tasks_count r)
       \<and> (\<exists>r. fst (next_week_tasks E today req st) = Inr r
            \<and> total_number_tasks r = int (length (next_week_qs u today st'))
            \<and> completed_tasks_count r
                = int (length (filter (\<lambda>t. status t) (next_week_qs u today st')))
            \<and> pending_tasks r = total_number_tasks r - completed_tasks_count r)
       \<and> (\<exists>r. fst (all_tasks E req st) = Inr r
            \<and> total_number_tasks r = int (length (filter (\<lambda>t. created_by t = u) st))
            \<and> completed_tasks_count r
                = int (length (filter (\<lambda>t. status t \<and> created_by t = u) st))
            \<and> pending_tasks r = total_number_tasks r - completed_tasks_count r)
       \<and> (\<forall>per_page qs. 0 < per_page \<longrightarrow>
            (\<exists>r. paginated_response E per_page req qs = Inr r
               \<and> total_number_tasks r = int (length qs)
               \<and> completed_tasks_count r = int (length (filter (\<lambda>t. status t) qs))
               \<and> pending_tasks r = total_number_tasks r - completed_tasks_count r))"
proof (intro conjI allI impI)
  show "\<exists>r. fst (today_tasks E today req st) = Inr r
            \<and> total_number_tasks r = int (length (filter (today_filter u today) st'))
            \<and> completed_tasks_count r
                = int (length (filter (\<lambda>t. status t \<and> today_filter u today t) st'))
            \<and> pending_tasks r = total_number_tasks r - completed_tasks_count r"
    using view_counts[of E req "today_filter u today" st']
    by (simp add: today_tasks_def today_qs_def Let_def u_def st'_def)
  show "\<exists>r. fst (next_week_tasks E today req st) = Inr r
            \<and> total_number_tasks r = int (length (next_week_qs u today st'))
            \<and> completed_tasks_count r
                = int (length (filter (\<lambda>t. status t) (next_week_qs u today st')))
            \<and> pending_tasks r = total_number_tasks r - completed_tasks_count r"
    using paginated_response_counts[of 20 E req "next_week_qs u today st'"]
    by (auto simp: next_week_tasks_def Let_def u_def st'_def)
  show "\<exists>r. fst (all_tasks E req st) = Inr r
            \<and> total_number_tasks r = int (length (filter (\<lambda>t. created_by t = u) st))
            \<and> completed_tasks_count r
                = int (length (filter (\<lambda>t. status t \<and> created_by t = u) st))
            \<and> pending_tasks r = total_number_tasks r - completed_tasks_count r"
    using view_counts[of E req "\<lambda>t. created_by t = u" st]
    by (simp add: all_tasks_def all_qs_def u_def)
next
  fix per_page :: int and qs :: "task list"
  assume "0 < per_page"
  from paginated_response_counts[OF this, of E req qs]
  show "\<exists>r. paginated_response E per_page req qs = Inr r
               \<and> total_number_tasks r = int (length qs)
               \<and> completed_tasks_count r = int (length (filter (\<lambda>t. status t) qs))
               \<and> pending_tasks r = total_number_tasks r - completed_tasks_count r"
    by auto
qed

lemma demo_today_filter:
  "filter (today_filter 1 100) demo_store
   = [demo_task 1 1 100 True, demo_task 2 1 100 False, demo_task 3 1 100 False,
      demo_task 4 1 99 False]"
  by (simp add: demo_store_def demo_task_def today_filter_def date_lt_def)

lemma demo_today_qs:
  "today_qs 1 100 demo_store
   = [demo_task 4 1 99 False, demo_task 2 1 100 False, demo_task 3 1 100 False,
      demo_task 1 1 100 True]"
  by code_simp

theorem list_view_counts_witness:
  "(0 :: int) < 20
   \<and> (\<exists>r. fst (today_tasks demo_env 100 (demo_request 1 (Some ''2'')) demo_store) = Inr r
         \<and> total_number_tasks r = 4 \<and> completed_tasks_count r = 1 \<and> pending_tasks r = 3)
   \<and> (\<exists>r. paginated_response demo_env 20 (demo_request 1 (Some ''2'')) demo_store = Inr r
         \<and> total_number_tasks r = 5 \<and> completed_tasks_count r = 1 \<and> pending_tasks r = 4)"
proof -
  have m: "r_user (demo_request 1 (Some ''2'')) = 1"
    "materialize demo_env 1 100 demo_store = demo_store"
    by (simp_all add: demo_env_def demo_request_def)
  have c: "filter (\<lambda>t. status t \<and> today_filter 1 100 t) demo_store = [demo_task 1 1 100 True]"
    by (simp add: demo_store_def demo_task_def today_filter_def date_lt_def)
  have d: "length demo_store = 5" "filter (\<lambda>t. status t) demo_store = [demo_task 1 1 100 True]"
    by (simp_all add: demo_store_def demo_task_def)
  have h: "(0 :: int) < 20" by simp
  from list_view_counts[of demo_env 100 "demo_request 1 (Some ''2'')" demo_store]
  have a: "\<exists>r. fst (today_tasks demo_env 100 (demo_request 1 (Some ''2'')) demo_store) = Inr r
         \<and> total_number_tasks r = 4 \<and> completed_tasks_count r = 1 \<and> pending_tasks r = 3"
    and b: "\<forall>per_page qs. 0 < per_page \<longrightarrow>
            (\<exists>r. paginated_response demo_env per_page (demo_request 1 (Some ''2'')) qs = Inr r
               \<and> total_number_tasks r = int (length qs)
               \<and> completed_tasks_count r = int (length (filter (\<lambda>t. status t) qs))
               \<and> pending_tasks r = total_number_tasks r - completed_tasks_count r)"
    unfolding m by (auto simp: demo_today_filter c)
  from b[rule_format, OF h, of demo_store] a h show ?thesis by (auto simp: d)
qed

text \<open>
  C5. After the materialization of the routines the query set of the today view holds
  exactly the rows of the table that belong to the user and are due today, or are due on
  an earlier date and incomplete (each row as often as the table has it); it is ordered
  with the incomplete rows before the complete ones and, within the same completion
  state, by ascending due date. The response is a page of 20 consecutive rows of this
  query set, and the whole of it when it has at most 20 rows.
\<close>

theorem today_view_contents:
  fixes E :: env and req :: request and st :: "task list" and today :: date
  defines "u \<equiv> r_user req"
  defines "st' \<equiv> materialize E u today st"
  defines "qs \<equiv> today_qs u today st'"
  shows "mset qs = mset (filter (\<lambda>t. created_by t = u
                     \<and> (due_date t = Some today
                        \<or> (\<exists>d. due_date t = Some d \<and> d < today \<and> \<not> status t))) st')
       \<and> sorted_wrt (\<lambda>a b. (\<not> status a \<and> status b)
            \<or> (status a = status b
               \<and> (\<exists>x y. due_date a = Some x \<and> due_date b = Some y \<and> x \<le> y))) qs
       \<and> (\<exists>r k. fst (today_tasks E today req st) = Inr r
              \<and> user_tasks r = take 20 (drop (20 * k) qs)
              \<and> pagination_total r = int (length qs)
              \<and> (length qs \<le> 20 \<longrightarrow> user_tasks r = qs))"
proof (intro conjI)
  have "filter (today_filter u today) st' = filter (\<lambda>t. created_by t = u
                     \<and> (due_date t = Some today
                        \<or> (\<exists>d. due_date t = Some d \<and> d < today \<and> \<not> status t))) st'"
    by (rule filter_cong) (simp_all add: today_filter_iff)
  then show "mset qs = mset (filter (\<lambda>t. created_by t = u
                     \<and> (due_date t = Some today
                        \<or> (\<exists>d. due_date t = Some d \<and> d < today \<and> \<not> status t))) st')"
    by (simp add: qs_def today_qs_def mset_order_by)
  have "\<forall>t\<in>set (filter (today_filter u today) st'). due_date t \<noteq> None"
    by (auto simp: today_filter_iff)
  from order_by_sorted[OF this]
  show "sorted_wrt (\<lambda>a b. (\<not> status a \<and> status b)
            \<or> (status a = status b
               \<and> (\<exists>x y. due_date a = Some x \<and> due_date b = Some y \<and> x \<le> y))) qs"
    by (simp add: qs_def today_qs_def)
  obtain r k where r: "paginated_response E 20 req qs = Inr r"
      "user_tasks r = take 20 (drop (20 * k) qs)" "pagination_total r = int (length qs)"
    using paginated_response_page[of E req qs] by blast
  have "length qs \<le> 20 \<longrightarrow> user_tasks r = qs"
    using paginated_response_small[of qs E req] r(1) by auto
  with r show "\<exists>r k. fst (today_tasks E today req st) = Inr r
              \<and> user_tasks r = take 20 (drop (20 * k) qs)
              \<and> pagination_total r = int (length qs)
              \<and> (length qs \<le> 20 \<longrightarrow> user_tasks r = qs)"
    by (auto simp: today_tasks_def Let_def qs_def st'_def u_def)
qed

theorem today_view_contents_witness:
  "length (today_qs 1 100 demo_store) \<le> 20
   \<and> (\<exists>r. fst (today_tasks demo_env 100 (demo_request 1 None) demo_store) = Inr r
         \<and> user_tasks r = [demo_task 4 1 99 False, demo_task 2 1 100 False,
                            demo_task 3 1 100 False, demo_task 1 1 100 True])"
proof -
  have m: "r_user (demo_request 1 None) = 1"
    "materialize demo_env 1 100 demo_store = demo_store"
    by (simp_all add: demo_env_def demo_request_def)
  have h: "length (today_qs 1 100 demo_store) \<le> 20" by (simp add: demo_today_qs)
  from today_view_contents[where E = demo_env and today = 100
      and req = "demo_request 1 None" and st = demo_store]
  have "\<exists>r k. fst (today_tasks demo_env 100 (demo_request 1 None) demo_store) = Inr r
              \<and> (length (today_qs 1 100 demo_store) \<le> 20
                    \<longrightarrow> user_tasks r = today_qs 1 100 demo_store)"
    unfolding m by blast
  with h show ?thesis by (auto simp: demo_today_qs)
qed

text \<open>
  C9. In each list view a page parameter that is no number, a number below 1 or a number
  beyond the last page yields the successful response of page 1: the first 20 rows of the
  query set, the same response as that of the request without a page parameter. The page
  size is 20.
\<close>

theorem pagination_fallback:
  fixes E :: env and req :: request and st :: "task list" and today :: date
  defines "u \<equiv> r_user req"
  defines "st' \<equiv> materialize E u today st"
  defines "unnumbered \<equiv> req\<lparr>r_page := None\<rparr>"
  assumes "r_page req = Some s"
  shows "(int_of_str E s = None
          \<or> (\<exists>n. int_of_str E s = Some n \<and> (n < 1 \<or> num_pages 20 (today_qs u today st') < n))
          \<longrightarrow> (\<exists>r. fst (today_tasks E today req st) = Inr r
                 \<and> user_tasks r = take 20 (today_qs u today st')
                 \<and> pagination_page r = 1 \<and> pagination_per_page r = 20
                 \<and> today_tasks E today req st = today_tasks E today unnumbered st))
       \<and> (int_of_str E s = None
          \<or> (\<exists>n. int_of_str E s = Some n \<and> (n < 1 \<or> num_pages 20 (next_week_qs u today st') < n))
          \<longrightarrow> (\<exists>r. fst (next_week_tasks E today req st) = Inr r
                 \<and> user_tasks r = take 20 (next_week_qs u today st')
                 \<and> pagination_page r = 1 \<and> pagination_per_page r = 20
                 \<and> next_week_tasks E today req st = next_week_tasks E today unnumbered st))
       \<and> (int_of_str E s = None
          \<or> (\<exists>n. int_of_str E s = Some n \<and> (n < 1 \<or> num_pages 20 (all_qs u st) < n))
          \<longrightarrow> (\<exists>r. fst (all_tasks E req st) = Inr r
                 \<and> user_tasks r = take 20 (all_qs u st)
                 \<and> pagination_page r = 1 \<and> pagination_per_page r = 20
                 \<and> all_tasks E req st = all_tasks E unnumbered st))"
proof (intro conjI impI)
  assume "int_of_str E s = None
          \<or> (\<exists>n. int_of_str E s = Some n \<and> (n < 1 \<or> num_pages 20 (today_qs u today st') < n))"
  from fallback_generic[OF assms(4) this]
  show "\<exists>r. fst (today_tasks E today req st) = Inr r
                 \<and> user_tasks r = take 20 (today_qs u today st')
                 \<and> pagination_page r = 1 \<and> pagination_per_page r = 20
                 \<and> today_tasks E today req st = today_tasks E today unnumbered st"
    by (auto simp: today_tasks_def Let_def u_def st'_def unnumbered_def)
next
  assume "int_of_str E s = None
          \<or> (\<exists>n. int_of_str E s = Some n \<and> (n < 1 \<or> num_pages 20 (next_week_qs u today st') < n))"
  from fallback_generic[OF assms(4) this]
  show "\<exists>r. fst (next_week_tasks E today req st) = Inr r
                 \<and> user_tasks r = take 20 (next_week_qs u today st')
                 \<and> pagination_page r = 1 \<and> pagination_per_page r = 20
                 \<and> next_week_tasks E today req st = next_week_tasks E today unnumbered st"
    by (auto simp: next_week_tasks_def Let_def u_def st'_def unnumbered_def)
next
  assume "int_of_str E s = None
          \<or> (\<exists>n. int_of_str E s = Some n \<and> (n < 1 \<or> num_pages 20 (all_qs u st) < n))"
  from fallback_generic[OF assms(4) this]
  show "\<exists>r. fst (all_tasks E req st) = Inr r
                 \<and> user_tasks r = take 20 (all_qs u st)
                 \<and> pagination_page r = 1 \<and> pagination_per_page r = 20
                 \<and> all_tasks E req st = all_tasks E unnumbered st"
    by (auto simp: all_tasks_def Let_def u_def unnumbered_def)
qed

theorem pagination_fallback_witness:
  "r_page (demo_request 1 (Some ''abc'')) = Some ''abc'' \<and> int_of_str demo_env ''abc'' = None
   \<and> r_page (demo_request 1 (Some ''9999'')) = Some ''9999''
   \<and> int_of_str demo_env ''9999'' = Some 9999
   \<and> num_pages 20 (today_qs 1 100 demo_store) < 9999
   \<and> (\<exists>r. fst (today_tasks demo_env 100 (demo_request 1 (Some ''abc'')) demo_store) = Inr r
         \<and> user_tasks r = take 20 (today_qs 1 100 demo_store) \<and> pagination_page r = 1)
   \<and> (\<exists>r. fst (today_tasks demo_env 100 (demo_request 1 (Some ''9999'')) demo_store) = Inr r
         \<and> user_tasks r = take 20 (today_qs 1 100 demo_store) \<and> pagination_page r = 1)"
proof -
  have m: "\<And>p. r_user (demo_request 1 p) = 1"
    "materialize demo_env 1 100 demo_store = demo_store"
    by (simp_all add: demo_env_def demo_request_def)
  have p1: "r_page (demo_request 1 (Some ''abc'')) = Some ''abc''"
    and p2: "r_page (demo_request 1 (Some ''9999'')) = Some ''9999''"
    by (simp_all add: demo_request_def)
  have i1: "int_of_str demo_env ''abc'' = None"
    by (simp add: demo_env_def dec_int_def digit_val_def)
  have i2: "int_of_str demo_env ''9999'' = Some 9999"
    by (simp add: demo_env_def dec_int_def digit_val_def)
  have n: "num_pages 20 (today_qs 1 100 demo_store) < 9999"
    by (simp add: demo_today_qs num_pages_def)
  from pagination_fallback[OF p1, where E = demo_env and today = 100 and st = demo_store]
  have a: "\<exists>r. fst (today_tasks demo_env 100 (demo_request 1 (Some ''abc'')) demo_store) = Inr r
         \<and> user_tasks r = take 20 (today_qs 1 100 demo_store) \<and> pagination_page r = 1"
    unfolding m using i1 by blast
  from pagination_fallback[OF p2, where E = demo_env and today = 100 and st = demo_store]
  have b: "\<exists>r. fst (today_tasks demo_env 100 (demo_request 1 (Some ''9999'')) demo_store) = Inr r
         \<and> user_tasks r = take 20 (today_qs 1 100 demo_store) \<and> pagination_page r = 1"
    unfolding m using i2 n by blast
  from a b p1 p2 i1 i2 n show ?thesis by blast
qed


section \<open>Properties of the mutation endpoints\<close>

lemma url_call_of_ids [simp]: "url_call_of (req\<lparr>r_task_ids := v\<rparr>) = url_call_of req"
  by (simp add: url_call_of_def)

lemma same_id_same_row:
  "unique_ids st \<Longrightarrow> x \<in> set st \<Longrightarrow> y \<in> set st \<Longrightarrow> task_id x = task_id y \<Longrightarrow> x = y"
  unfolding unique_ids_def by (simp add: distinct_map inj_on_def)

lemma filter_key_single:
  "distinct (map task_id st) \<Longrightarrow> t \<in> set st
   \<Longrightarrow> filter (\<lambda>x. task_id x = task_id t \<and> created_by x = created_by t) st = [t]"
proof (induction st)
  case Nil
  then show ?case by simp
next
  case (Cons a st)
  show ?case
  proof (cases "a = t")
    case True
    have "filter (\<lambda>x. task_id x = task_id t \<and> created_by x = created_by t) st = []"
      using Cons.prems(1) True by (auto simp: filter_empty_conv image_iff)
    then show ?thesis using True by simp
  next
    case False
    then have "t \<in> set st" using Cons.prems(2) by simp
    moreover have "task_id a \<noteq> task_id t" using Cons.prems(1) \<open>t \<in> set st\<close> by auto
    ultimately show ?thesis using Cons by simp
  qed
qed

lemma get_own:
  assumes "unique_ids st" and "t \<in> set st" and "created_by t = u"
  shows "get_object_or_404 (task_id t) u st = Inr t"
  using filter_key_single[of st t] assms by (simp add: get_object_or_404_def unique_ids_def)

lemma save_by_row:
  assumes "unique_ids st" and "t \<in> set st" and "task_id t' = task_id t"
  shows "map (\<lambda>x. if task_id x = task_id t' then t' else x) st
         = map (\<lambda>x. if x = t then t' else x) st"
proof (rule map_cong[OF refl])
  fix x assume "x \<in> set st"
  then show "(if task_id x = task_id t' then t' else x) = (if x = t then t' else x)"
    using same_id_same_row[OF assms(1) _ assms(2), of x] assms(3) by auto
qed

lemma find_filter_key:
  "distinct (map task_id st) \<Longrightarrow> x \<in> set st
   \<Longrightarrow> find (\<lambda>y. task_id y = task_id x) (filter P st) = (if P x then Some x else None)"
proof (induction st)
  case Nil
  then show ?case by simp
next
  case (Cons a st)
  show ?case
  proof (cases "a = x")
    case True
    have "find (\<lambda>y. task_id y = task_id x) (filter P st) = None"
      using Cons.prems(1) True by (auto simp: find_None_iff image_iff)
    then show ?thesis using True by simp
  next
    case False
    then have "x \<in> set st" using Cons.prems(2) by simp
    moreover have "task_id a \<noteq> task_id x" using Cons.prems(1) \<open>x \<in> set st\<close> by auto
    ultimately show ?thesis using Cons by simp
  qed
qed

lemma find_map_key:
  assumes "\<And>y. task_id (f y) = task_id y"
  shows "find (\<lambda>obj. task_id obj = k) (map f ys) = map_option f (find (\<lambda>y. task_id y = k) ys)"
  by (induction ys) (simp_all add: assms)

lemma find_updated:
  assumes "unique_ids st" and "x \<in> set st" and "\<And>y. task_id (f y) = task_id y"
  shows "find (\<lambda>obj. task_id obj = task_id x) (map f (filter P st))
         = (if P x then Some (f x) else None)"
  using find_filter_key[of st x P] assms(1,2)
  by (simp add: find_map_key[of f, OF assms(3)] unique_ids_def)


lemma toggle_fields:
  "task_id (toggle today t) = task_id t" "created_by (toggle today t) = created_by t"
  "status (toggle today t) = (\<not> status t)"
  "done_date (toggle today t) = (if status t then None else Some today)"
  "task_title (toggle today t) = task_title t" "task_details (toggle today t) = task_details t"
  "due_date (toggle today t) = due_date t" "source_routine (toggle today t) = source_routine t"
  by (simp_all add: toggle_def Let_def)

lemma write_toggle: "write_status_done_date (toggle today x) x = toggle today x"
  by (simp add: write_status_done_date_def toggle_def Let_def)

lemma bulk_update_toggle:
  assumes "unique_ids st"
    and "list_all (accepts E) (map (toggle today) (filter_ids ids u st))"
  shows "bulk_update E write_status_done_date (map (toggle today) (filter_ids ids u st)) st
         = Inr (map (\<lambda>x. if task_id x \<in> set ids \<and> created_by x = u
                          then toggle today x else x) st)"
proof -
  have "map (\<lambda>x. case find (\<lambda>obj. task_id obj = task_id x)
                        (map (toggle today) (filter_ids ids u st)) of
                   None \<Rightarrow> x | Some obj \<Rightarrow> write_status_done_date obj x) st
        = map (\<lambda>x. if task_id x \<in> set ids \<and> created_by x = u then toggle today x else x) st"
  proof (rule map_cong[OF refl])
    fix x assume x: "x \<in> set st"
    show "(case find (\<lambda>obj. task_id obj = task_id x)
                        (map (toggle today) (filter_ids ids u st)) of
                   None \<Rightarrow> x | Some obj \<Rightarrow> write_status_done_date obj x)
          = (if task_id x \<in> set ids \<and> created_by x = u then toggle today x else x)"
      unfolding filter_ids_def
      by (simp add: find_updated[OF assms(1) x, of "toggle today", OF toggle_fields(1)]
            write_toggle)
  qed
  then show ?thesis using assms(2) by (simp add: bulk_update_def)
qed

text \<open>
  C6. On a table with unique keys, toggling a task of the caller that the table accepts
  back flips its \<open>status\<close>, sets \<open>done_date\<close> to today when the task becomes complete and
  clears it when the task becomes incomplete, and leaves every other row and column as it
  was. The bulk toggle does the same to each row whose key is listed and whose owner is
  the caller, each from its own former status, and to no other row.
\<close>

theorem toggle_complete:
  fixes E :: env and req :: request and st :: "task list" and today :: date and t :: task
  defines "u \<equiv> r_user req"
  defines "one \<equiv> map (\<lambda>x. if x = t then toggle today t else x) st"
  defines "many \<equiv> (\<lambda>ids. map (\<lambda>x. if task_id x \<in> set ids \<and> created_by x = u
                                    then toggle today x else x) st)"
  assumes "unique_ids st"
  shows "(t \<in> set st \<and> created_by t = u \<and> accepts E (toggle today t)
            \<longrightarrow> task_complete E today req (task_id t) st
                 = ((200, TaskBody (toggle today t) (tasks_count E (url_call_of req) u one)), one))
       \<and> (\<forall>ids. r_task_ids req = Some (IdList ids)
              \<and> list_all (accepts E) (map (toggle today) (filter_ids ids u st))
            \<longrightarrow> multiple_task_complete E today req st
                 = ((200, TasksBody (map (toggle today) (filter_ids ids u st))
                            (tasks_count E (url_call_of req) u (many ids))), many ids))
       \<and> status (toggle today t) = (\<not> status t)
       \<and> done_date (toggle today t) = (if status t then None else Some today)
       \<and> toggle today t = t\<lparr>status := \<not> status t,
                              done_date := (if status t then None else Some today)\<rparr>"
proof (intro conjI impI allI)
  assume a: "t \<in> set st \<and> created_by t = u \<and> accepts E (toggle today t)"
  then have g: "get_object_or_404 (task_id t) (r_user req) st = Inr t"
    using get_own[OF assms(4), of t u] by (simp add: u_def)
  have "save E (toggle today t) st = Inr one"
    using a save_by_row[OF assms(4), of t "toggle today t"]
    by (simp add: save_def one_def toggle_fields)
  then show "task_complete E today req (task_id t) st
                 = ((200, TaskBody (toggle today t) (tasks_count E (url_call_of req) u one)), one)"
    using g by (simp add: task_complete_def Let_def u_def)
next
  fix ids
  assume a: "r_task_ids req = Some (IdList ids)
              \<and> list_all (accepts E) (map (toggle today) (filter_ids ids u st))"
  from bulk_update_toggle[OF assms(4), of E today ids u] a
  show "multiple_task_complete E today req st
                 = ((200, TasksBody (map (toggle today) (filter_ids ids u st))
                            (tasks_count E (url_call_of req) u (many ids))), many ids)"
    by (simp add: multiple_task_complete_def Let_def u_def many_def)
qed (simp_all add: toggle_def Let_def)

text \<open>
  C10. The bulk toggle with an empty list of ids answers 200 with an empty list of tasks
  and leaves the table as it was, where the bulk delete and the bulk date update answer
  400 to the same list.
\<close>

theorem empty_bulk_toggle:
  "multiple_task_complete E today (req\<lparr>r_task_ids := Some (IdList [])\<rparr>) st
     = ((200, TasksBody [] (tasks_count E (url_call_of req) (r_user req) st)), st)
   \<and> multiple_delete_task E (req\<lparr>r_task_ids := Some (IdList [])\<rparr>) st
     = ((400, ErrorBody ''task_ids list is empty''), st)
   \<and> multiple_update_task_dates E (req\<lparr>r_task_ids := Some (IdList [])\<rparr>) st
     = ((400, ErrorBody ''task_ids list is empty''), st)"
  by (simp add: multiple_task_complete_def multiple_delete_task_def
        multiple_update_task_dates_def Let_def filter_ids_def bulk_update_def)


lemma demo_unique: "unique_ids demo_store"
  by (simp add: unique_ids_def demo_store_def demo_task_def)

theorem toggle_complete_witness:
  "unique_ids demo_store
   \<and> demo_task 2 1 100 False \<in> set demo_store
   \<and> created_by (demo_task 2 1 100 False) = r_user (demo_request 1 None)
   \<and> accepts demo_env (toggle 101 (demo_task 2 1 100 False))
   \<and> snd (task_complete demo_env 101 (demo_request 1 None) 2 demo_store)
       = [demo_task 1 1 100 True,
          (demo_task 2 1 100 False)\<lparr>status := True, done_date := Some 101\<rparr>,
          demo_task 3 1 100 False, demo_task 4 1 99 False, demo_task 5 2 100 False]
   \<and> r_task_ids ((demo_request 1 None)\<lparr>r_task_ids := Some (IdList [1, 2, 5])\<rparr>)
       = Some (IdList [1, 2, 5])
   \<and> snd (multiple_task_complete demo_env 101
            ((demo_request 1 None)\<lparr>r_task_ids := Some (IdList [1, 2, 5])\<rparr>) demo_store)
       = [(demo_task 1 1 100 True)\<lparr>status := False, done_date := None\<rparr>,
          (demo_task 2 1 100 False)\<lparr>status := True, done_date := Some 101\<rparr>,
          demo_task 3 1 100 False, demo_task 4 1 99 False, demo_task 5 2 100 False]"
proof -
  let ?t = "demo_task 2 1 100 False"
  let ?req = "demo_request 1 None"
  let ?bulk = "?req\<lparr>r_task_ids := Some (IdList [1, 2, 5])\<rparr>"
  have h1: "?t \<in> set demo_store \<and> created_by ?t = r_user ?req
            \<and> accepts demo_env (toggle 101 ?t)"
    by (simp add: demo_store_def demo_task_def demo_request_def demo_env_def not_null_def
          toggle_def Let_def)
  have id: "task_id ?t = 2" by (simp add: demo_task_def)
  have h2: "r_task_ids ?bulk = Some (IdList [1, 2, 5])
            \<and> list_all (accepts demo_env)
                 (map (toggle 101) (filter_ids [1, 2, 5] (r_user ?bulk) demo_store))"
    by (simp add: demo_store_def demo_task_def demo_request_def demo_env_def not_null_def
          toggle_def Let_def filter_ids_def)
  from toggle_complete[OF demo_unique, where E = demo_env and today = 101 and req = ?req
      and t = ?t] h1
  have a: "snd (task_complete demo_env 101 ?req 2 demo_store)
           = map (\<lambda>x. if x = ?t then toggle 101 ?t else x) demo_store"
    unfolding id by simp
  from toggle_complete[OF demo_unique, where E = demo_env and today = 101 and req = ?bulk
      and t = ?t] h2
  have b: "snd (multiple_task_complete demo_env 101 ?bulk demo_store)
           = map (\<lambda>x. if task_id x \<in> set [1, 2, 5] \<and> created_by x = r_user ?bulk
                        then toggle 101 x else x) demo_store"
    by simp
  have a': "map (\<lambda>x. if x = ?t then toggle 101 ?t else x) demo_store
       = [demo_task 1 1 100 True,
          (demo_task 2 1 100 False)\<lparr>status := True, done_date := Some 101\<rparr>,
          demo_task 3 1 100 False, demo_task 4 1 99 False, demo_task 5 2 100 False]"
    by (simp add: demo_store_def demo_task_def toggle_def Let_def)
  have b': "map (\<lambda>x. if task_id x \<in> set [1, 2, 5] \<and> created_by x = r_user ?bulk
                        then toggle 101 x else x) demo_store
       = [(demo_task 1 1 100 True)\<lparr>status := False, done_date := None\<rparr>,
          (demo_task 2 1 100 False)\<lparr>status := True, done_date := Some 101\<rparr>,
          demo_task 3 1 100 False, demo_task 4 1 99 False, demo_task 5 2 100 False]"
    by (simp add: demo_store_def demo_task_def demo_request_def toggle_def Let_def)
  show ?thesis using demo_unique h1 h2 a b unfolding a' b' by simp
qed

theorem empty_bulk_toggle_witness:
  "multiple_task_complete demo_env 101
       ((demo_request 1 None)\<lparr>r_task_ids := Some (IdList [])\<rparr>) demo_store
     = ((200, TasksBody [] (4, 1, 3)), demo_store)
   \<and> fst (fst (multiple_delete_task demo_env
       ((demo_request 1 None)\<lparr>r_task_ids := Some (IdList [])\<rparr>) demo_store)) = 400"
proof -
  have c: "tasks_count demo_env (url_call_of (demo_request 1 None))
             (r_user (demo_request 1 None)) demo_store = (4, 1, 3)"
    by (simp add: demo_env_def count_all_def all_qs_def demo_request_def
          length_order_by length_filter_order_by Let_def)
       (simp add: demo_store_def demo_task_def)
  from empty_bulk_toggle[of demo_env 101 "demo_request 1 None" demo_store]
  show ?thesis unfolding c by simp
qed


lemma get_Inr:
  "get_object_or_404 tid u st = Inr t \<Longrightarrow> t \<in> set st \<and> created_by t = u \<and> task_id t = tid"
proof -
  assume a: "get_object_or_404 tid u st = Inr t"
  then have "filter (\<lambda>t. task_id t = tid \<and> created_by t = u) st = [t]"
    by (auto simp: get_object_or_404_def split: list.splits)
  then have "t \<in> set (filter (\<lambda>t. task_id t = tid \<and> created_by t = u) st)" by simp
  then show ?thesis by simp
qed

lemma get_foreign:
  assumes "unique_ids st" and "x \<in> set st" and "created_by x \<noteq> u"
  shows "get_object_or_404 (task_id x) u st = Inl Http404"
proof -
  have "filter (\<lambda>t. task_id t = task_id x \<and> created_by t = u) st = []"
    using same_id_same_row[OF assms(1) _ assms(2)] assms(3) by (auto simp: filter_empty_conv)
  then show ?thesis by (simp add: get_object_or_404_def)
qed

lemma get_missing:
  assumes "tid \<notin> task_id ` set st"
  shows "get_object_or_404 tid u st = Inl Http404"
proof -
  have "filter (\<lambda>t. task_id t = tid \<and> created_by t = u) st = []"
    using assms by (auto simp: filter_empty_conv)
  then show ?thesis by (simp add: get_object_or_404_def)
qed

lemma frame_map:
  assumes "\<And>x. x \<in> set st \<Longrightarrow> created_by x \<noteq> u \<Longrightarrow> g x = x"
    and "\<And>x. x \<in> set st \<Longrightarrow> created_by x = u \<Longrightarrow> created_by (g x) = u"
  shows "filter (\<lambda>t. created_by t \<noteq> u) (map g st) = filter (\<lambda>t. created_by t \<noteq> u) st"
  using assms by (induction st) auto

lemma save_frame:
  assumes "unique_ids st" and "t \<in> set st" and "created_by t = u"
    and "task_id t' = task_id t" and "created_by t' = u" and "save E t' st = Inr st'"
  shows "filter (\<lambda>t. created_by t \<noteq> u) st' = filter (\<lambda>t. created_by t \<noteq> u) st"
proof -
  have st': "st' = map (\<lambda>x. if task_id x = task_id t' then t' else x) st"
    using assms(6) by (auto simp: save_def split: if_splits)
  show ?thesis unfolding st'
  proof (rule frame_map)
    fix x assume "x \<in> set st" "created_by x \<noteq> u"
    then show "(if task_id x = task_id t' then t' else x) = x"
      using same_id_same_row[OF assms(1) _ assms(2), of x] assms(3,4) by auto
  next
    fix x assume "x \<in> set st" "created_by x = u"
    then show "created_by (if task_id x = task_id t' then t' else x) = u"
      using assms(5) by simp
  qed
qed

lemma bulk_update_frame:
  assumes "unique_ids st" and "\<And>y. task_id (f y) = task_id y"
    and "\<And>obj x. created_by (write obj x) = created_by x"
    and "bulk_update E write (map f (filter_ids ids u st)) st = Inr st'"
  shows "filter (\<lambda>t. created_by t \<noteq> u) st' = filter (\<lambda>t. created_by t \<noteq> u) st"
proof -
  have st': "st' = map (\<lambda>x. case find (\<lambda>obj. task_id obj = task_id x)
                                 (map f (filter_ids ids u st)) of
                            None \<Rightarrow> x | Some obj \<Rightarrow> write obj x) st"
    using assms(4) by (auto simp: bulk_update_def split: if_splits)
  show ?thesis unfolding st'
  proof (rule frame_map)
    fix x assume x: "x \<in> set st" "created_by x \<noteq> u"
    show "(case find (\<lambda>obj. task_id obj = task_id x) (map f (filter_ids ids u st)) of
             None \<Rightarrow> x | Some obj \<Rightarrow> write obj x) = x"
      unfolding filter_ids_def
      using x(2) by (simp add: find_updated[OF assms(1) x(1), of f, OF assms(2)])
  next
    fix x assume "x \<in> set st" "created_by x = u"
    then show "created_by (case find (\<lambda>obj. task_id obj = task_id x)
                 (map f (filter_ids ids u st)) of None \<Rightarrow> x | Some obj \<Rightarrow> write obj x) = u"
      by (simp add: assms(3) split: option.splits)
  qed
qed

lemma filter_ids_owned: "list_all (\<lambda>t. created_by t = u) (filter_ids ids u st)"
  by (simp add: filter_ids_def list_all_iff)


lemma isolated_error [simp]: "isolated u st ((c, ErrorBody e), st) = (c \<noteq> 403)"
  by (simp add: isolated_def)

lemma isolated_internal [simp]: "isolated u st (internal_error, st)"
  by (simp add: isolated_def internal_error_def)

lemma update_task_isolated:
  assumes "unique_ids st"
  shows "isolated (r_user req) st (update_task E req tid st)"
proof (cases "get_object_or_404 tid (r_user req) st")
  case (Inl e)
  then show ?thesis by (simp add: update_task_def Let_def)
next
  case (Inr t)
  note g = get_Inr[OF Inr]
  define t2 where "t2 = updated_task E req t"
  have t2: "task_id t2 = task_id t" "created_by t2 = r_user req"
    using g by (simp_all add: t2_def updated_task_def Let_def split: option.splits)
  have u: "update_task E req tid st
        = (case save E t2 st of Inl e \<Rightarrow> (internal_error, st)
           | Inr st' \<Rightarrow> ((200, TaskBody t2 (tasks_count E (url_call_of req) (r_user req) st')),
                          st'))"
    using Inr unfolding t2_def by (simp add: update_task_def Let_def)
  show ?thesis
  proof (cases "save E t2 st")
    case (Inl e)
    then show ?thesis using u by simp
  next
    case (Inr st')
    from save_frame[OF assms _ _ t2 Inr] g
    show ?thesis using u Inr t2 by (simp add: isolated_def)
  qed
qed

lemma task_complete_isolated:
  assumes "unique_ids st"
  shows "isolated (r_user req) st (task_complete E today req tid st)"
proof (cases "get_object_or_404 tid (r_user req) st")
  case (Inl e)
  then show ?thesis by (simp add: task_complete_def Let_def)
next
  case (Inr t)
  note g = get_Inr[OF Inr]
  have t2: "task_id (toggle today t) = task_id t" "created_by (toggle today t) = r_user req"
    using g by (simp_all add: toggle_fields)
  show ?thesis
  proof (cases "save E (toggle today t) st")
    case (Inl e)
    then show ?thesis using \<open>get_object_or_404 tid (r_user req) st = Inr t\<close>
      by (simp add: task_complete_def Let_def)
  next
    case (Inr st')
    from save_frame[OF assms _ _ t2 Inr] g
    show ?thesis using Inr t2 \<open>get_object_or_404 tid (r_user req) st = Inr t\<close>
      by (simp add: isolated_def task_complete_def Let_def)
  qed
qed

lemma delete_task_isolated:
  assumes "unique_ids st"
  shows "isolated (r_user req) st (delete_task E req tid st)"
proof (cases "get_object_or_404 tid (r_user req) st")
  case (Inl e)
  then show ?thesis by (simp add: delete_task_def Let_def)
next
  case (Inr t)
  note g = get_Inr[OF Inr]
  have "filter (\<lambda>t. created_by t \<noteq> r_user req) (filter (\<lambda>x. task_id x \<noteq> task_id t) st)
        = filter (\<lambda>t. created_by t \<noteq> r_user req) st"
    unfolding filter_filter
    by (rule filter_cong[OF refl]) (use same_id_same_row[OF assms] g in auto)
  then show ?thesis using Inr by (simp add: delete_task_def Let_def isolated_def)
qed

lemma multiple_delete_task_isolated:
  "isolated (r_user req) st (multiple_delete_task E req st)"
proof -
  have "filter (\<lambda>t. created_by t \<noteq> r_user req)
          (filter (\<lambda>t. \<not> (task_id t \<in> set ids \<and> created_by t = r_user req)) st)
        = filter (\<lambda>t. created_by t \<noteq> r_user req) st" for ids
    unfolding filter_filter by (rule filter_cong[OF refl]) auto
  then show ?thesis
    by (simp add: multiple_delete_task_def Let_def isolated_def
          split: option.splits ids_payload.splits)
qed

lemma multiple_task_complete_isolated:
  assumes "unique_ids st"
  shows "isolated (r_user req) st (multiple_task_complete E today req st)"
proof -
  have "isolated (r_user req) st
          (case bulk_update E write_status_done_date
                  (map (toggle today) (filter_ids ids (r_user req) st)) st of
             Inl e \<Rightarrow> (internal_error, st)
           | Inr st' \<Rightarrow> ((200, TasksBody (map (toggle today) (filter_ids ids (r_user req) st))
                                  (tasks_count E (url_call_of req) (r_user req) st')), st'))"
    for ids
  proof (cases "bulk_update E write_status_done_date
                  (map (toggle today) (filter_ids ids (r_user req) st)) st")
    case (Inl e)
    then show ?thesis by simp
  next
    case (Inr st')
    have "filter (\<lambda>t. created_by t \<noteq> r_user req) st'
          = filter (\<lambda>t. created_by t \<noteq> r_user req) st"
      by (rule bulk_update_frame[OF assms _ _ Inr])
         (simp_all add: toggle_fields write_status_done_date_def)
    then show ?thesis using Inr filter_ids_owned[of "r_user req" ids st]
      by (simp add: isolated_def list_all_iff toggle_fields)
  qed
  then show ?thesis
    by (simp add: multiple_task_complete_def Let_def split: option.splits ids_payload.splits)
qed

lemma multiple_update_task_dates_isolated:
  assumes "unique_ids st"
  shows "isolated (r_user req) st (multiple_update_task_dates E req st)"
proof -
  have "isolated (r_user req) st
          (case bulk_update E write_due_date
                  (map (\<lambda>t. t\<lparr>due_date := d\<rparr>) (filter_ids ids (r_user req) st)) st of
             Inl e \<Rightarrow> (internal_error, st)
           | Inr st' \<Rightarrow> ((200, TasksBody (map (\<lambda>t. t\<lparr>due_date := d\<rparr>)
                                           (filter_ids ids (r_user req) st))
                                  (tasks_count E (url_call_of req) (r_user req) st')), st'))"
    for ids d
  proof (cases "bulk_update E write_due_date
                  (map (\<lambda>t. t\<lparr>due_date := d\<rparr>) (filter_ids ids (r_user req) st)) st")
    case (Inl e)
    then show ?thesis by simp
  next
    case (Inr st')
    have "filter (\<lambda>t. created_by t \<noteq> r_user req) st'
          = filter (\<lambda>t. created_by t \<noteq> r_user req) st"
      by (rule bulk_update_frame[OF assms _ _ Inr]) (simp_all add: write_due_date_def)
    then show ?thesis using Inr filter_ids_owned[of "r_user req" ids st]
      by (simp add: isolated_def list_all_iff)
  qed
  moreover have "isolated (r_user req) st
      ((200, TasksBody (filter_ids ids (r_user req) st) c), st)" for ids c
    using filter_ids_owned[of "r_user req" ids st] by (simp add: isolated_def)
  ultimately show ?thesis
    by (simp add: multiple_update_task_dates_def Let_def
          split: option.splits ids_payload.splits)
qed

lemma run_mutation_isolated:
  assumes "unique_ids st"
  shows "isolated (r_user req) st (run_mutation E today req m st)"
  by (cases m)
     (simp_all add: update_task_isolated[OF assms] delete_task_isolated[OF assms]
        task_complete_isolated[OF assms] multiple_delete_task_isolated
        multiple_task_complete_isolated[OF assms] multiple_update_task_dates_isolated[OF assms])


lemma bulk_update_map:
  assumes "unique_ids st" and "\<And>y. task_id (f y) = task_id y"
    and "\<And>x. write (f x) x = f x"
    and "list_all (accepts E) (map f (filter_ids ids u st))"
  shows "bulk_update E write (map f (filter_ids ids u st)) st
         = Inr (map (\<lambda>x. if task_id x \<in> set ids \<and> created_by x = u then f x else x) st)"
proof -
  have "map (\<lambda>x. case find (\<lambda>obj. task_id obj = task_id x) (map f (filter_ids ids u st)) of
                   None \<Rightarrow> x | Some obj \<Rightarrow> write obj x) st
        = map (\<lambda>x. if task_id x \<in> set ids \<and> created_by x = u then f x else x) st"
  proof (rule map_cong[OF refl])
    fix x assume x: "x \<in> set st"
    show "(case find (\<lambda>obj. task_id obj = task_id x) (map f (filter_ids ids u st)) of
                   None \<Rightarrow> x | Some obj \<Rightarrow> write obj x)
          = (if task_id x \<in> set ids \<and> created_by x = u then f x else x)"
      unfolding filter_ids_def
      by (simp add: find_updated[OF assms(1) x, of f, OF assms(2)] assms(3))
  qed
  then show ?thesis using assms(4) by (simp add: bulk_update_def)
qed

lemma filter_none_id:
  "filter_ids ids u st = [] \<Longrightarrow>
   filter (\<lambda>t. \<not> (task_id t \<in> set ids \<and> created_by t = u)) st = st"
  by (auto simp: filter_ids_def filter_empty_conv filter_id_conv)
lemma foreign_id_no_target:
  assumes "unique_ids st" and "x \<in> set st" and "created_by x \<noteq> u"
    and "tid \<notin> task_id ` set st" and "t \<in> set st" and "created_by t = u"
  shows "task_id t \<in> set (map (\<lambda>i. if i = task_id x then tid else i) ids)
         \<longleftrightarrow> task_id t \<in> set ids"
proof -
  have a: "task_id t \<noteq> task_id x"
    using same_id_same_row[OF assms(1,5,2)] assms(3,6) by auto
  have b: "task_id t \<noteq> tid" using assms(4,5) by auto
  show ?thesis using a b by auto
qed

lemma filter_ids_foreign_as_missing:
  assumes "unique_ids st" and "x \<in> set st" and "created_by x \<noteq> u"
    and "tid \<notin> task_id ` set st"
  shows "filter_ids (map (\<lambda>i. if i = task_id x then tid else i) ids) u st
         = filter_ids ids u st"
  unfolding filter_ids_def
proof (rule filter_cong[OF refl])
  fix t assume "t \<in> set st"
  then show "(task_id t \<in> set (map (\<lambda>i. if i = task_id x then tid else i) ids)
              \<and> created_by t = u) = (task_id t \<in> set ids \<and> created_by t = u)"
    using foreign_id_no_target[OF assms, of t ids] by blast
qed

lemma delete_foreign_as_missing:
  assumes "unique_ids st" and "x \<in> set st" and "created_by x \<noteq> u"
    and "tid \<notin> task_id ` set st"
  shows "filter (\<lambda>t. \<not> (task_id t \<in> set (map (\<lambda>i. if i = task_id x then tid else i) ids)
                           \<and> created_by t = u)) st
         = filter (\<lambda>t. \<not> (task_id t \<in> set ids \<and> created_by t = u)) st"
proof (rule filter_cong[OF refl])
  fix t assume "t \<in> set st"
  then show "(\<not> (task_id t \<in> set (map (\<lambda>i. if i = task_id x then tid else i) ids)
                  \<and> created_by t = u)) = (\<not> (task_id t \<in> set ids \<and> created_by t = u))"
    using foreign_id_no_target[OF assms, of t ids] by blast
qed

lemma request_with_ids [simp]:
  "r_user (req\<lparr>r_task_ids := v\<rparr>) = r_user req"
  "r_due_date (req\<lparr>r_task_ids := v\<rparr>) = r_due_date req"
  "r_task_ids (req\<lparr>r_task_ids := v\<rparr>) = v"
  by simp_all

lemma bulk_foreign_as_missing:
  assumes "unique_ids st" and "x \<in> set st" and "created_by x \<noteq> r_user req"
    and "tid \<notin> task_id ` set st" and "r_task_ids req = Some (IdList ids)"
  defines "req' \<equiv> req\<lparr>r_task_ids :=
                       Some (IdList (map (\<lambda>i. if i = task_id x then tid else i) ids))\<rparr>"
  shows "multiple_update_task_dates E req st = multiple_update_task_dates E req' st"
    and "multiple_delete_task E req st = multiple_delete_task E req' st"
    and "multiple_task_complete E today req st = multiple_task_complete E today req' st"
proof -
  note f = filter_ids_foreign_as_missing[OF assms(1,2,3,4), of ids]
  note d = delete_foreign_as_missing[OF assms(1,2,3,4), of ids]
  show "multiple_update_task_dates E req st = multiple_update_task_dates E req' st"
    using assms(5) unfolding req'_def
    by (simp add: multiple_update_task_dates_def Let_def f
          cong: option.case_cong sum.case_cong)
  show "multiple_delete_task E req st = multiple_delete_task E req' st"
    unfolding req'_def multiple_delete_task_def Let_def
    by (simp only: assms(5) request_with_ids url_call_of_ids option.case ids_payload.case d
          map_is_Nil_conv)
  show "multiple_task_complete E today req st = multiple_task_complete E today req' st"
    using assms(5) unfolding req'_def
    by (simp add: multiple_task_complete_def Let_def f
          cong: option.case_cong sum.case_cong)
qed

lemma bulk_update_status:
  assumes "r_task_ids req = Some (IdList ids)" and "ids \<noteq> []"
  shows "fst (fst (multiple_update_task_dates E req st)) = 404
         \<longleftrightarrow> filter_ids ids (r_user req) st = []"
  using assms
  by (simp add: multiple_update_task_dates_def Let_def internal_error_def
        split: option.splits sum.splits)

lemma bulk_delete_answer:
  assumes "r_task_ids req = Some (IdList ids)" and "ids \<noteq> []"
  shows "multiple_delete_task E req st
         = ((200, MessageBody ''Tasks deleted''
                   (tasks_count E (url_call_of req) (r_user req)
                      (filter (\<lambda>t. \<not> (task_id t \<in> set ids \<and> created_by t = r_user req)) st))),
            filter (\<lambda>t. \<not> (task_id t \<in> set ids \<and> created_by t = r_user req)) st)"
  using assms by (simp add: multiple_delete_task_def Let_def)

lemma bulk_toggle_status:
  assumes "r_task_ids req = Some (IdList ids)"
    and "list_all (accepts E) (map (toggle today) (filter_ids ids (r_user req) st))"
  shows "fst (fst (multiple_task_complete E today req st)) = 200"
  using assms by (simp add: multiple_task_complete_def Let_def bulk_update_def)

text \<open>
  C7, as amended. On a table with unique keys, every update, delete and toggle, single or
  bulk, leaves the rows of the other users as they were, shows none of them in its
  response and never answers 403. A request that names a task of another user is
  answered, and the table left, exactly as the same request with a key that no row has
  in the place of the foreign one: so are the single update, delete and toggle, and so
  are the three bulk requests for every list of ids. That answer is not always a 404: for
  every list that is not empty the bulk date update answers 404 exactly when no listed id
  is a task of the caller, the bulk delete answers 200 and removes the listed tasks of the
  caller only, and the bulk toggle answers 200 whenever the table accepts the toggled
  tasks of the caller.
\<close>

theorem ownership_isolation:
  fixes E :: env and req :: request and st :: "task list" and today :: date and m :: mutation
  defines "u \<equiv> r_user req"
  defines "c \<equiv> tasks_count E (url_call_of req) u st"
  defines "swap \<equiv> (\<lambda>x tid ids. req\<lparr>r_task_ids :=
                        Some (IdList (map (\<lambda>i. if i = task_id x then tid else i) ids))\<rparr>)"
  defines "kept \<equiv> (\<lambda>ids. filter (\<lambda>t. \<not> (task_id t \<in> set ids \<and> created_by t = u)) st)"
  assumes "unique_ids st"
  shows "isolated u st (run_mutation E today req m st)
       \<and> (\<forall>x tid. x \<in> set st \<and> created_by x \<noteq> u \<and> tid \<notin> task_id ` set st
            \<longrightarrow> update_task E req (task_id x) st = update_task E req tid st
              \<and> delete_task E req (task_id x) st = delete_task E req tid st
              \<and> task_complete E today req (task_id x) st = task_complete E today req tid st
              \<and> snd (update_task E req (task_id x) st) = st
              \<and> snd (delete_task E req (task_id x) st) = st
              \<and> snd (task_complete E today req (task_id x) st) = st)
       \<and> (\<forall>x tid ids. x \<in> set st \<and> created_by x \<noteq> u \<and> tid \<notin> task_id ` set st
              \<and> r_task_ids req = Some (IdList ids)
            \<longrightarrow> multiple_update_task_dates E req st
                  = multiple_update_task_dates E (swap x tid ids) st
              \<and> multiple_delete_task E req st = multiple_delete_task E (swap x tid ids) st
              \<and> multiple_task_complete E today req st
                  = multiple_task_complete E today (swap x tid ids) st)
       \<and> (\<forall>ids. r_task_ids req = Some (IdList ids) \<and> ids \<noteq> []
            \<longrightarrow> (fst (fst (multiple_update_task_dates E req st)) = 404
                    \<longleftrightarrow> filter_ids ids u st = [])
              \<and> multiple_delete_task E req st
                  = ((200, MessageBody ''Tasks deleted''
                            (tasks_count E (url_call_of req) u (kept ids))), kept ids)
              \<and> (list_all (accepts E) (map (toggle today) (filter_ids ids u st))
                    \<longrightarrow> fst (fst (multiple_task_complete E today req st)) = 200))
       \<and> (\<forall>ids. r_task_ids req = Some (IdList ids) \<and> ids \<noteq> [] \<and> filter_ids ids u st = []
            \<longrightarrow> multiple_update_task_dates E req st = ((404, ErrorBody ''No tasks found''), st)
              \<and> multiple_delete_task E req st = ((200, MessageBody ''Tasks deleted'' c), st)
              \<and> multiple_task_complete E today req st = ((200, TasksBody [] c), st))"
proof (intro conjI allI impI)
  show "isolated u st (run_mutation E today req m st)"
    unfolding u_def by (rule run_mutation_isolated[OF assms(5)])
next
  fix x tid
  assume a: "x \<in> set st \<and> created_by x \<noteq> u \<and> tid \<notin> task_id ` set st"
  then have g: "get_object_or_404 (task_id x) (r_user req) st = Inl Http404"
    "get_object_or_404 tid (r_user req) st = Inl Http404"
    using get_foreign[OF assms(5), of x u] get_missing[of tid st u] by (simp_all add: u_def)
  show "update_task E req (task_id x) st = update_task E req tid st"
    "delete_task E req (task_id x) st = delete_task E req tid st"
    "task_complete E today req (task_id x) st = task_complete E today req tid st"
    "snd (update_task E req (task_id x) st) = st"
    "snd (delete_task E req (task_id x) st) = st"
    "snd (task_complete E today req (task_id x) st) = st"
    using g by (simp_all add: update_task_def delete_task_def task_complete_def Let_def)
next
  fix x tid ids
  assume a: "x \<in> set st \<and> created_by x \<noteq> u \<and> tid \<notin> task_id ` set st
              \<and> r_task_ids req = Some (IdList ids)"
  then have h: "x \<in> set st" "created_by x \<noteq> r_user req" "tid \<notin> task_id ` set st"
    "r_task_ids req = Some (IdList ids)"
    by (simp_all add: u_def)
  show "multiple_update_task_dates E req st = multiple_update_task_dates E (swap x tid ids) st"
    unfolding swap_def by (rule bulk_foreign_as_missing(1)[OF assms(5) h])
  show "multiple_delete_task E req st = multiple_delete_task E (swap x tid ids) st"
    unfolding swap_def by (rule bulk_foreign_as_missing(2)[OF assms(5) h])
  show "multiple_task_complete E today req st
        = multiple_task_complete E today (swap x tid ids) st"
    unfolding swap_def by (rule bulk_foreign_as_missing(3)[OF assms(5) h])
next
  fix ids
  assume a: "r_task_ids req = Some (IdList ids) \<and> ids \<noteq> []"
  then have h: "r_task_ids req = Some (IdList ids)" "ids \<noteq> []" by simp_all
  show "(fst (fst (multiple_update_task_dates E req st)) = 404) = (filter_ids ids u st = [])"
    unfolding u_def by (rule bulk_update_status[OF h])
  show "multiple_delete_task E req st
        = ((200, MessageBody ''Tasks deleted''
                  (tasks_count E (url_call_of req) u (kept ids))), kept ids)"
    unfolding u_def kept_def by (rule bulk_delete_answer[OF h])
  show "fst (fst (multiple_task_complete E today req st)) = 200"
    if "list_all (accepts E) (map (toggle today) (filter_ids ids u st))"
    using that unfolding u_def by (rule bulk_toggle_status[OF h(1)])
next
  fix ids
  assume a: "r_task_ids req = Some (IdList ids) \<and> ids \<noteq> [] \<and> filter_ids ids u st = []"
  show "multiple_update_task_dates E req st = ((404, ErrorBody ''No tasks found''), st)"
    using a by (simp add: multiple_update_task_dates_def Let_def u_def)
  show "multiple_delete_task E req st = ((200, MessageBody ''Tasks deleted'' c), st)"
    using a filter_none_id[of ids u st]
    by (simp add: multiple_delete_task_def Let_def u_def c_def)
  show "multiple_task_complete E today req st = ((200, TasksBody [] c), st)"
    using a by (simp add: multiple_task_complete_def Let_def u_def c_def bulk_update_def)
qed

lemma demo_counts:
  "tasks_count demo_env (url_call_of (demo_request 1 None)) 1 demo_store = (4, 1, 3)"
  by (simp add: demo_env_def count_all_def all_qs_def length_order_by
        length_filter_order_by Let_def)
     (simp add: demo_store_def demo_task_def)

theorem ownership_isolation_witness:
  "unique_ids demo_store
   \<and> demo_task 5 2 100 False \<in> set demo_store
   \<and> created_by (demo_task 5 2 100 False) \<noteq> 1
   \<and> 7 \<notin> task_id ` set demo_store
   \<and> snd (update_task demo_env (demo_request 1 None) 5 demo_store) = demo_store
   \<and> update_task demo_env (demo_request 1 None) 5 demo_store
       = update_task demo_env (demo_request 1 None) 7 demo_store
   \<and> multiple_delete_task demo_env
        ((demo_request 1 None)\<lparr>r_task_ids := Some (IdList [2, 5])\<rparr>) demo_store
       = multiple_delete_task demo_env
        ((demo_request 1 None)\<lparr>r_task_ids := Some (IdList [2, 7])\<rparr>) demo_store
   \<and> snd (multiple_delete_task demo_env
        ((demo_request 1 None)\<lparr>r_task_ids := Some (IdList [2, 5])\<rparr>) demo_store)
       = [demo_task 1 1 100 True, demo_task 3 1 100 False, demo_task 4 1 99 False,
          demo_task 5 2 100 False]
   \<and> filter_ids [5] 1 demo_store = []
   \<and> multiple_task_complete demo_env 101
       ((demo_request 1 None)\<lparr>r_task_ids := Some (IdList [5])\<rparr>) demo_store
       = ((200, TasksBody [] (4, 1, 3)), demo_store)"
proof -
  let ?x = "demo_task 5 2 100 False"
  let ?req = "demo_request 1 None"
  let ?bulk = "?req\<lparr>r_task_ids := Some (IdList [5])\<rparr>"
  let ?mixed = "?req\<lparr>r_task_ids := Some (IdList [2, 5])\<rparr>"
  have u: "r_user ?req = 1" "r_user ?bulk = 1" "url_call_of ?bulk = url_call_of ?req"
    "r_user ?mixed = 1"
    by (simp_all add: demo_request_def url_call_of_def)
  have h1: "?x \<in> set demo_store \<and> created_by ?x \<noteq> 1 \<and> 7 \<notin> task_id ` set demo_store"
    by (simp add: demo_store_def demo_task_def)
  have id: "task_id ?x = 5" by (simp add: demo_task_def)
  have h2: "r_task_ids ?bulk = Some (IdList [5]) \<and> [5 :: int] \<noteq> []
            \<and> filter_ids [5] 1 demo_store = []"
    by (simp add: filter_ids_def demo_store_def demo_task_def)
  have h3: "?x \<in> set demo_store \<and> created_by ?x \<noteq> 1 \<and> 7 \<notin> task_id ` set demo_store
            \<and> r_task_ids ?mixed = Some (IdList [2, 5])"
    using h1 by simp
  have h4: "r_task_ids ?mixed = Some (IdList [2, 5]) \<and> [2, 5 :: int] \<noteq> []" by simp
  note t1 = ownership_isolation[OF demo_unique, where E = demo_env and today = 101
      and req = ?req and m = "UpdateTask 5", unfolded u]
  note t2 = ownership_isolation[OF demo_unique, where E = demo_env and today = 101
      and req = ?bulk and m = MultipleTaskComplete, unfolded u]
  note t3 = ownership_isolation[OF demo_unique, where E = demo_env and today = 101
      and req = ?mixed and m = MultipleDeleteTask, unfolded u]
  from t1[THEN conjunct2, THEN conjunct1, rule_format, of ?x 7, OF h1]
  have a: "update_task demo_env ?req 5 demo_store
         = update_task demo_env ?req 7 demo_store
       \<and> snd (update_task demo_env ?req 5 demo_store) = demo_store"
    unfolding id by blast
  from t2[THEN conjunct2, THEN conjunct2, THEN conjunct2, THEN conjunct2, rule_format,
      of "[5]", OF h2]
  have b: "multiple_task_complete demo_env 101 ?bulk demo_store
       = ((200, TasksBody [] (4, 1, 3)), demo_store)"
    by (simp add: demo_counts)
  from t3[THEN conjunct2, THEN conjunct2, THEN conjunct1, rule_format,
      of ?x 7 "[2, 5]", OF h3]
  have c: "multiple_delete_task demo_env ?mixed demo_store
       = multiple_delete_task demo_env
           (?req\<lparr>r_task_ids := Some (IdList [2, 7])\<rparr>) demo_store"
    unfolding id by simp
  from t3[THEN conjunct2, THEN conjunct2, THEN conjunct2, THEN conjunct1, rule_format,
      of "[2, 5]", OF h4]
  have "snd (multiple_delete_task demo_env ?mixed demo_store)
       = filter (\<lambda>t. \<not> (task_id t \<in> set [2, 5] \<and> created_by t = 1)) demo_store"
    by simp
  also have "\<dots> = [demo_task 1 1 100 True, demo_task 3 1 100 False, demo_task 4 1 99 False,
          demo_task 5 2 100 False]"
    by (simp add: demo_store_def demo_task_def)
  finally have d: "snd (multiple_delete_task demo_env ?mixed demo_store)
       = [demo_task 1 1 100 True, demo_task 3 1 100 False, demo_task 4 1 99 False,
          demo_task 5 2 100 False]" .
  show ?thesis using demo_unique h1 h2 a b c d by blast
qed

text \<open>
  C7 as stated fails: user 1 asks for the bulk delete of task 5, which belongs to user 2;
  the task stays, and the answer is the success 200 \<open>Tasks deleted\<close>, not a 404.
\<close>

theorem foreign_id_not_reported_as_not_found:
  "demo_task 5 2 100 False \<in> set demo_store
   \<and> created_by (demo_task 5 2 100 False) = 2
   \<and> r_user ((demo_request 1 None)\<lparr>r_task_ids := Some (IdList [5])\<rparr>) = 1
   \<and> run_mutation demo_env 101 ((demo_request 1 None)\<lparr>r_task_ids := Some (IdList [5])\<rparr>)
        MultipleDeleteTask demo_store
       = ((200, MessageBody ''Tasks deleted'' (4, 1, 3)), demo_store)
   \<and> fst (fst (run_mutation demo_env 101
                  ((demo_request 1 None)\<lparr>r_task_ids := Some (IdList [5])\<rparr>)
                  MultipleDeleteTask demo_store)) \<noteq> 404"
proof -
  have "filter (\<lambda>t. \<not> (task_id t \<in> set [5] \<and> created_by t = 1)) demo_store = demo_store"
    by (simp add: demo_store_def demo_task_def)
  then show ?thesis using demo_counts
    by (simp add: multiple_delete_task_def Let_def demo_request_def url_call_of_def)
       (simp add: demo_store_def demo_task_def)
qed



lemma lax_counts:
  "tasks_count lax_env c 1 st
   = (int (length (filter (\<lambda>t. created_by t = 1) st)),
      int (length (filter (\<lambda>t. status t \<and> created_by t = 1) st)),
      int (length (filter (\<lambda>t. created_by t = 1) st))
        - int (length (filter (\<lambda>t. status t \<and> created_by t = 1) st)))"
  by (simp add: lax_env_def demo_env_def count_all_def all_qs_def length_order_by
        length_filter_order_by Let_def conj_commute)



text \<open>
  The bulk date update is all or nothing on every table: when the table accepts the
  targeted tasks with the parsed date, each of them and no other row gets it; when it
  refuses one of them, no row is changed.
\<close>

lemma bulk_dates_all_or_nothing:
  fixes E :: env and req :: request and st :: "task list" and ids :: "int list"
    and raw :: string
  defines "u \<equiv> r_user req"
  defines "parsed \<equiv> parse_date_input E (Some raw)"
  defines "objs \<equiv> map (\<lambda>t. t\<lparr>due_date := parsed\<rparr>) (filter_ids ids u st)"
  defines "st2 \<equiv> map (\<lambda>x. if task_id x \<in> set ids \<and> created_by x = u
                           then x\<lparr>due_date := parsed\<rparr> else x) st"
  assumes "unique_ids st" and "r_task_ids req = Some (IdList ids)"
    and "filter_ids ids u st \<noteq> []" and "r_due_date req = Some raw"
  shows "(list_all (accepts E) objs \<longrightarrow> multiple_update_task_dates E req st
            = ((200, TasksBody objs (tasks_count E (url_call_of req) u st2)), st2))
       \<and> (\<not> list_all (accepts E) objs \<longrightarrow> multiple_update_task_dates E req st
            = (internal_error, st))"
proof -
  have ne: "ids \<noteq> []" using assms(7) by (auto simp: filter_ids_def)
  have a: "list_all (accepts E) objs \<longrightarrow>
           bulk_update E write_due_date objs st = Inr st2"
    unfolding objs_def st2_def
    by (intro impI bulk_update_map[OF assms(5)]) (simp_all add: write_due_date_def)
  have b: "\<not> list_all (accepts E) objs \<longrightarrow> bulk_update E write_due_date objs st
           = Inl IntegrityError"
    by (simp add: bulk_update_def)
  have m: "multiple_update_task_dates E req st
      = (case bulk_update E write_due_date objs st of
           Inl e \<Rightarrow> (internal_error, st)
         | Inr st' \<Rightarrow> ((200, TasksBody objs (tasks_count E (url_call_of req) u st')), st'))"
    using assms(6,7,8) ne unfolding objs_def parsed_def u_def
    by (simp add: multiple_update_task_dates_def Let_def)
  show ?thesis
  proof (intro conjI impI)
    assume "list_all (accepts E) objs"
    with a have "bulk_update E write_due_date objs st = Inr st2" by blast
    then show "multiple_update_task_dates E req st
            = ((200, TasksBody objs (tasks_count E (url_call_of req) u st2)), st2)"
      unfolding m by simp
  next
    assume "\<not> list_all (accepts E) objs"
    with b have "bulk_update E write_due_date objs st = Inl IntegrityError" by blast
    then show "multiple_update_task_dates E req st = (internal_error, st)"
      unfolding m by simp
  qed
qed




lemma demo_cleared:
  "map (\<lambda>x. if task_id x \<in> set [2, 4] \<and> created_by x = 1 then x\<lparr>due_date := None\<rparr> else x)
     demo_store
   = [demo_task 1 1 100 True, (demo_task 2 1 100 False)\<lparr>due_date := None\<rparr>,
      demo_task 3 1 100 False, (demo_task 4 1 99 False)\<lparr>due_date := None\<rparr>,
      demo_task 5 2 100 False]"
  by (simp add: demo_store_def demo_task_def)




lemma fresh_id_gt: "x \<in> set st \<Longrightarrow> task_id x < fresh_id st"
proof -
  have "\<And>a. a \<le> fold max xs a \<and> (\<forall>y\<in>set xs. y \<le> fold max xs a)" for xs :: "int list"
  proof (induction xs)
    case Nil
    then show ?case by simp
  next
    case (Cons z zs)
    have "max z a \<le> fold max zs (max z a)" "\<forall>y\<in>set zs. y \<le> fold max zs (max z a)"
      using Cons[of "max z a"] by auto
    then show ?case by auto
  qed
  then have "\<forall>y\<in>set (map task_id st). y \<le> fold max (map task_id st) 0" by blast
  moreover assume "x \<in> set st"
  ultimately have "task_id x \<le> fold max (map task_id st) 0" by simp
  then show ?thesis by (simp add: fresh_id_def)
qed

lemma fresh_id_new: "fresh_id st \<notin> task_id ` set st"
  using fresh_id_gt[of _ st] by force

text \<open>
  C8, as amended. \<open>add_task\<close> hands to the table a new incomplete task of the caller,
  under a key that no row has, with the title and the details of the body as they are
  (none when the key is absent) and with the parsed due date, or today when the parser
  yields no date, as it does for an absent or unparseable one. The endpoint checks no
  title. It answers 201 and the task is stored when the table accepts the row; it answers
  the generic 500 and stores nothing when the table refuses it.
\<close>

theorem add_task_defaults:
  fixes E :: env and req :: request and st :: "task list" and today :: date
  defines "due \<equiv> (case parse_date_input E (r_due_date req) of None \<Rightarrow> today | Some d \<Rightarrow> d)"
  defines "new \<equiv> \<lparr> task_id = fresh_id st,
                    task_title = (case r_task_title req of None \<Rightarrow> None | Some v \<Rightarrow> v),
                    task_details = (case r_task_details req of None \<Rightarrow> None | Some v \<Rightarrow> v),
                    due_date = Some due, status = False, done_date = None,
                    created_by = r_user req, source_routine = None \<rparr>"
  shows "(accepts E new \<longrightarrow> add_task E today req st
            = ((201, TaskBody new (tasks_count E (url_call_of req) (r_user req) (st @ [new]))),
               st @ [new]))
       \<and> (\<not> accepts E new \<longrightarrow> add_task E today req st = (internal_error, st))
       \<and> (parse_date_input E (r_due_date req) = None \<longrightarrow> due_date new = Some today)
       \<and> (\<forall>d. parse_date_input E (r_due_date req) = Some d \<longrightarrow> due_date new = Some d)
       \<and> task_id new \<notin> task_id ` set st"
  using fresh_id_new[of st]
  by (simp add: add_task_def create_def Let_def new_def due_def split: option.splits)


lemma demo_fresh: "fresh_id demo_store = 6"
  by (simp add: fresh_id_def demo_store_def demo_task_def)

lemma demo_env_absent: "parse_date_input demo_env None = None"
  by (simp add: demo_env_def)

theorem add_task_defaults_witness:
  "parse_date_input demo_env
       (r_due_date ((demo_request 1 None)\<lparr>r_task_title := Some (Some ''milk'')\<rparr>)) = None
   \<and> snd (add_task demo_env 101 ((demo_request 1 None)\<lparr>r_task_title := Some (Some ''milk'')\<rparr>)
            demo_store)
       = demo_store @ [\<lparr> task_id = 6, task_title = Some ''milk'', task_details = None,
                          due_date = Some 101, status = False, done_date = None,
                          created_by = 1, source_routine = None \<rparr>]
   \<and> add_task demo_env 101 (demo_request 1 None) demo_store = (internal_error, demo_store)"
proof -
  let ?req = "(demo_request 1 None)\<lparr>r_task_title := Some (Some ''milk'')\<rparr>"
  let ?new = "\<lparr> task_id = 6, task_title = Some ''milk'', task_details = None,
                 due_date = Some (101 :: int), status = False, done_date = None,
                 created_by = 1, source_routine = None \<rparr>"
  let ?bad = "\<lparr> task_id = 6, task_title = None, task_details = None,
                 due_date = Some (101 :: int), status = False, done_date = None,
                 created_by = 1, source_routine = None \<rparr>"
  have q: "r_due_date ?req = None" "r_task_title ?req = Some (Some ''milk'')"
    "r_task_details ?req = None" "r_user ?req = 1"
    "r_due_date (demo_request 1 None) = None" "r_task_title (demo_request 1 None) = None"
    "r_task_details (demo_request 1 None) = None" "r_user (demo_request 1 None) = 1"
    by (simp_all add: demo_request_def)
  have p: "parse_date_input demo_env (r_due_date ?req) = None"
    by (simp add: q demo_env_absent)
  have ok: "accepts demo_env ?new" by (simp add: demo_env_def not_null_def)
  have no: "\<not> accepts demo_env ?bad" by (simp add: demo_env_def not_null_def)
  from add_task_defaults[where E = demo_env and today = 101 and req = ?req
      and st = demo_store, unfolded q demo_env_absent demo_fresh] ok
  have a: "snd (add_task demo_env 101 ?req demo_store) = demo_store @ [?new]" by simp
  from add_task_defaults[where E = demo_env and today = 101 and req = "demo_request 1 None"
      and st = demo_store, unfolded q demo_env_absent demo_fresh] no
  have b: "add_task demo_env 101 (demo_request 1 None) demo_store
           = (internal_error, demo_store)" by simp
  show ?thesis using p a b by blast
qed

text \<open>
  C8 as stated fails: on a table that requires a title and a due date the request with
  the empty title is answered 201 and the task is created, and on a table whose title
  admits \<open>NULL\<close> so is the request with no title at all.
\<close>

theorem title_is_not_checked:
  "accepts demo_env \<lparr> task_id = 6, task_title = Some [], task_details = None,
                       due_date = Some 101, status = False, done_date = None,
                       created_by = 1, source_routine = None \<rparr>
   \<and> add_task demo_env 101 ((demo_request 1 None)\<lparr>r_task_title := Some (Some [])\<rparr>)
        demo_store
       = ((201, TaskBody \<lparr> task_id = 6, task_title = Some [], task_details = None,
                            due_date = Some 101, status = False, done_date = None,
                            created_by = 1, source_routine = None \<rparr> (5, 1, 4)),
          demo_store @ [\<lparr> task_id = 6, task_title = Some [], task_details = None,
                            due_date = Some 101, status = False, done_date = None,
                            created_by = 1, source_routine = None \<rparr>])
   \<and> add_task lax_env 101 (demo_request 1 None) demo_store
       = ((201, TaskBody \<lparr> task_id = 6, task_title = None, task_details = None,
                            due_date = Some 101, status = False, done_date = None,
                            created_by = 1, source_routine = None \<rparr> (5, 1, 4)),
          demo_store @ [\<lparr> task_id = 6, task_title = None, task_details = None,
                            due_date = Some 101, status = False, done_date = None,
                            created_by = 1, source_routine = None \<rparr>])"
proof -
  have c: "tasks_count demo_env c 1 st = tasks_count lax_env c 1 st" for c st
    by (simp add: lax_env_def)
  have n: "length (filter (\<lambda>t. created_by t = 1) demo_store) = 4"
    "length (filter (\<lambda>t. status t \<and> created_by t = 1) demo_store) = 1"
    by (simp_all add: demo_store_def demo_task_def)
  have p: "parse_date_input lax_env None = None" by (simp add: lax_env_def demo_env_def)
  show ?thesis
    by (simp add: add_task_def create_def Let_def demo_request_def url_call_of_def
          demo_fresh demo_env_absent p c lax_counts n)
       (simp add: demo_env_def lax_env_def not_null_def)
qed


section \<open>Properties of the materialization engine\<close>

lemma materialized_append: "materialized u rid d ts \<Longrightarrow> materialized u rid d (ts @ zs)"
  by (auto simp: materialized_def list_ex_iff)

lemma materialize_one_grows: "\<exists>zs. materialize_one u d r ts = ts @ zs"
  by (simp add: materialize_one_def)

lemma materialize_one_keeps:
  "materialized u rid d ts \<Longrightarrow> materialized u rid d (materialize_one u d r ts)"
  using materialize_one_grows[of u d r ts] materialized_append by metis

lemma materialize_one_done:
  "fires_on r d \<Longrightarrow> materialized u (routine_id r) d (materialize_one u d r ts)"
  by (simp add: materialize_one_def materialized_def list_ex_iff)

lemma fold_keeps:
  "materialized u rid d ts \<Longrightarrow> materialized u rid d (fold (materialize_one u d) rs ts)"
  by (induction rs arbitrary: ts) (simp_all add: materialize_one_keeps)

lemma fold_done:
  "r \<in> set rs \<Longrightarrow> fires_on r d
   \<Longrightarrow> materialized u (routine_id r) d (fold (materialize_one u d) rs ts)"
proof (induction rs arbitrary: ts)
  case Nil
  then show ?case by simp
next
  case (Cons a rs)
  show ?case
  proof (cases "r = a")
    case True
    then show ?thesis using Cons.prems(2) by (simp add: fold_keeps materialize_one_done)
  next
    case False
    then show ?thesis using Cons by simp
  qed
qed

lemma fold_nothing_to_do:
  "(\<And>r. r \<in> set rs \<Longrightarrow> fires_on r d \<Longrightarrow> materialized u (routine_id r) d ts)
   \<Longrightarrow> fold (materialize_one u d) rs ts = ts"
proof (induction rs)
  case Nil
  then show ?case by simp
next
  case (Cons a rs)
  have "materialize_one u d a ts = ts"
    using Cons.prems[of a] by (auto simp: materialize_one_def)
  then show ?case using Cons by simp
qed

lemma apply_routines_idem:
  "apply_routines routines u d (apply_routines routines u d ts) = apply_routines routines u d ts"
  unfolding apply_routines_def
  by (rule fold_nothing_to_do) (rule fold_done)

text \<open>
  C1. For every owner, date and table, materializing the routines one or more times for
  the same owner and date leaves the table that materializing them once leaves: a
  further call finds a task for every routine that fires and creates none.
\<close>

theorem apply_routines_idempotent:
  "((apply_routines routines u d) ^^ Suc n) ts = apply_routines routines u d ts"
proof (induction n)
  case 0
  then show ?case by simp
next
  case (Suc n)
  have "((apply_routines routines u d) ^^ Suc (Suc n)) ts
        = apply_routines routines u d (((apply_routines routines u d) ^^ Suc n) ts)"
    by simp
  also have "\<dots> = apply_routines routines u d (apply_routines routines u d ts)"
    using Suc by simp
  also have "\<dots> = apply_routines routines u d ts" by (rule apply_routines_idem)
  finally show ?case .
qed

lemma demo_materialized:
  "apply_routines demo_routines 1 105 demo_store
   = demo_store @
     [\<lparr> task_id = 6, task_title = Some ''review'', task_details = None,
         due_date = Some 105, status = False, done_date = None, created_by = 1,
         source_routine = Some (1, 105) \<rparr>,
      \<lparr> task_id = 7, task_title = Some ''stretch'', task_details = Some ''ten minutes'',
         due_date = Some 105, status = False, done_date = None, created_by = 1,
         source_routine = Some (2, 105) \<rparr>]"
  by (simp add: apply_routines_def demo_routines_def materialize_one_def materialized_def
        fresh_id_def demo_store_def demo_task_def)

theorem apply_routines_idempotent_witness:
  "((apply_routines demo_routines 1 105) ^^ Suc 2) demo_store
   = demo_store @
     [\<lparr> task_id = 6, task_title = Some ''review'', task_details = None,
         due_date = Some 105, status = False, done_date = None, created_by = 1,
         source_routine = Some (1, 105) \<rparr>,
      \<lparr> task_id = 7, task_title = Some ''stretch'', task_details = Some ''ten minutes'',
         due_date = Some 105, status = False, done_date = None, created_by = 1,
         source_routine = Some (2, 105) \<rparr>]"
  using apply_routines_idempotent[where routines = demo_routines and u = 1 and d = 105
      and n = 2 and ts = demo_store]
  by (simp only: demo_materialized)

end
